theory Spec2Isabelle
  imports Main
begin

section \<open>JavaScript values of the polling agent\<close>

text \<open>
  The agent (\<^verbatim>\<open>src/app.ts\<close>) talks to collaborators that are used through their
  interfaces only: the cloud client (\<^verbatim>\<open>./api\<close>), the bus publisher
  (\<^verbatim>\<open>./publish\<close>), the credential file (\<^verbatim>\<open>./persistence\<close>), the logger and the
  timed wait.  Their answers are parameters of the model; an answer is either a value or
  a thrown exception.  Numbers are integers here: timestamps in seconds and
  milliseconds, result codes.
\<close>

datatype exn = Error string | TypeError string

text \<open>Opaque JSON content that the agent only forwards.\<close>

type_synonym json = string

text \<open>
  A JavaScript \<^verbatim>\<open>Date\<close> holds a time value in milliseconds or \<^verbatim>\<open>NaN\<close>.  The
  constructor \<^verbatim>\<open>new Date(v)\<close> clips: beyond 8.64e15 milliseconds either side of the
  epoch the date is invalid.  \<^verbatim>\<open>getTime()\<close> of an invalid date is \<^verbatim>\<open>NaN\<close>
  (\<open>None\<close>), and every comparison with \<^verbatim>\<open>NaN\<close> is false.
\<close>

datatype date = Date int | Invalid_Date

definition new_Date :: "int \<Rightarrow> date" where
  "new_Date v = (if \<bar>v\<bar> \<le> 8640000000000000 then Date v else Invalid_Date)"

fun getTime :: "date \<Rightarrow> int option" where
  "getTime (Date t) = Some t"
| "getTime Invalid_Date = None"

fun js_gt :: "int option \<Rightarrow> int option \<Rightarrow> bool" where
  "js_gt (Some a) (Some b) = (b < a)"
| "js_gt _ _ = False"

text \<open>
  \<^verbatim>\<open>LoginResultResponse\<close> (declared in \<^verbatim>\<open>./api\<close>): app.ts reads only
  \<^verbatim>\<open>token_expires_at\<close>, in seconds; the token itself is opaque.
\<close>

record LoginResultResponse =
  auth_token :: string
  token_expires_at :: int

text \<open>The envelope of every API answer; \<^verbatim>\<open>data\<close> may be absent.\<close>

record 'a ResultResponse =
  code :: int
  msg :: string
  data :: "'a option"

record Site =
  site_id :: string
  site_name :: string

record SiteHomepageResponse =
  site_list :: "Site list option"
  homepage_rest :: json

record SiteDeviceParamResponse =
  param_data :: "json option"

text \<open>What is handed to the publisher as payload.\<close>

datatype payload = Undefined | Homepage SiteHomepageResponse | Json json

fun json_payload :: "json option \<Rightarrow> payload" where
  "json_payload None = Undefined"
| "json_payload (Some j) = Json j"

fun homepage_payload :: "SiteHomepageResponse option \<Rightarrow> payload" where
  "homepage_payload None = Undefined"
| "homepage_payload (Some h) = Homepage h"

text \<open>The two options of \<^verbatim>\<open>getConfig()\<close> that the cycle and the loop read.\<close>

record config =
  mqttTopic :: string
  pollInterval :: int

subsection \<open>isLoginValid (app.ts, lines 11-13)\<close>

definition isLoginValid :: "LoginResultResponse \<Rightarrow> date \<Rightarrow> bool" where
  "isLoginValid loginData now =
     js_gt (getTime (new_Date (token_expires_at loginData * 1000))) (getTime now)"

section \<open>Effects: the trace of outgoing calls and the credential file\<close>

text \<open>
  Every call that leaves the agent is written to a trace, with its arguments.  The
  credential file (\<^verbatim>\<open>config.loginStore\<close>) is the one piece of state that lasts from
  one cycle to the next.
\<close>

datatype event =
    Log string
  | LogError string
  | LogWarn string exn
  | Retrieve
  | Store LoginResultResponse
  | Login
  | WithLogin LoginResultResponse
  | SiteHomepage
  | ScenInfo string
  | GetSiteDeviceParam string string
  | Publish string payload
  | Sleep int
  | SetTimeout int
  | ConsoleLog string
  | ConsoleError exn

record traced =
  trace :: "event list"

record world = traced +
  loginStore :: "LoginResultResponse option"

text \<open>
  An asynchronous computation: from a state to its result, a value or a thrown
  exception (a rejected promise), and the state it leaves.
\<close>

type_synonym 'a prog = "world \<Rightarrow> (exn + 'a) \<times> world"

definition return :: "'a \<Rightarrow> 's \<Rightarrow> (exn + 'a) \<times> 's" where
  "return x = (\<lambda>s. (Inr x, s))"

definition throw :: "exn \<Rightarrow> 's \<Rightarrow> (exn + 'a) \<times> 's" where
  "throw e = (\<lambda>s. (Inl e, s))"

text \<open>\<^verbatim>\<open>const x = await m; f(x)\<close>: an exception of \<open>m\<close> skips \<open>f\<close>.\<close>

definition bind ::
  "('s \<Rightarrow> (exn + 'a) \<times> 's) \<Rightarrow> ('a \<Rightarrow> 's \<Rightarrow> (exn + 'b) \<times> 's) \<Rightarrow> 's \<Rightarrow> (exn + 'b) \<times> 's" where
  "bind m f = (\<lambda>s. case m s of (Inl e, s') \<Rightarrow> (Inl e, s') | (Inr x, s') \<Rightarrow> f x s')"

text \<open>\<^verbatim>\<open>try { m } catch (e) { h(e) }\<close>\<close>

definition try_catch ::
  "('s \<Rightarrow> (exn + 'a) \<times> 's) \<Rightarrow> (exn \<Rightarrow> 's \<Rightarrow> (exn + 'a) \<times> 's) \<Rightarrow> 's \<Rightarrow> (exn + 'a) \<times> 's" where
  "try_catch m h = (\<lambda>s. case m s of (Inl e, s') \<Rightarrow> h e s' | (Inr x, s') \<Rightarrow> (Inr x, s'))"

definition emit :: "event \<Rightarrow> 'z traced_scheme \<Rightarrow> (exn + unit) \<times> 'z traced_scheme" where
  "emit ev = (\<lambda>s. (Inr (), s\<lparr>trace := trace s @ [ev]\<rparr>))"

definition answer :: "exn + 'a \<Rightarrow> 's \<Rightarrow> (exn + 'a) \<times> 's" where
  "answer r = (\<lambda>s. (r, s))"

definition raise_if :: "exn option \<Rightarrow> 's \<Rightarrow> (exn + unit) \<times> 's" where
  "raise_if r = (case r of Some e \<Rightarrow> throw e | None \<Rightarrow> return ())"

definition get_state :: "'s \<Rightarrow> (exn + 's) \<times> 's" where
  "get_state = (\<lambda>s. (Inr s, s))"

definition modify :: "('s \<Rightarrow> 's) \<Rightarrow> 's \<Rightarrow> (exn + unit) \<times> 's" where
  "modify f = (\<lambda>s. (Inr (), f s))"

text \<open>
  What the collaborators answer during one cycle.  A call made at most once per cycle has
  one answer; a per-site call is asked with the position of the site in the list (and, for
  \<^verbatim>\<open>getSiteDeviceParam\<close>, the number of earlier such calls for that site), a publish
  with the number of publishes the cycle has made on the way there, so that equal
  arguments may still be answered differently.  \<open>clock\<close> is the time that
  \<^verbatim>\<open>new Date()\<close> reads in \<^verbatim>\<open>isLoginValid\<close>.
\<close>

record env =
  clock :: int
  login_answer :: "exn + LoginResultResponse ResultResponse"
  withLogin_answer :: "LoginResultResponse \<Rightarrow> exn option"
  siteHomepage_answer :: "exn + SiteHomepageResponse ResultResponse"
  scenInfo_answer :: "nat \<Rightarrow> string \<Rightarrow> exn + json ResultResponse"
  getSiteDeviceParam_answer ::
    "nat \<Rightarrow> nat \<Rightarrow> string \<Rightarrow> string \<Rightarrow> exn + SiteDeviceParamResponse ResultResponse"
  publish_answer :: "nat \<Rightarrow> string \<Rightarrow> payload \<Rightarrow> exn option"
  store_answer :: "LoginResultResponse \<Rightarrow> exn option"

subsection \<open>The logger\<close>

definition logger_log :: "string \<Rightarrow> unit prog" where
  "logger_log m = emit (Log m)"

definition logger_error :: "string \<Rightarrow> unit prog" where
  "logger_error m = emit (LogError m)"

definition logger_warn :: "string \<Rightarrow> exn \<Rightarrow> unit prog" where
  "logger_warn m e = emit (LogWarn m e)"

subsection \<open>The credential file\<close>

text \<open>
  Modelled from the spec: \<^verbatim>\<open>FilePersistence\<close> of \<^verbatim>\<open>./persistence\<close>, whose source
  is not at hand.  \<^verbatim>\<open>retrieve()\<close> returns the last persisted credential or none and
  never fails the caller; \<^verbatim>\<open>store(c)\<close> overwrites the prior value, or fails loudly,
  in which case nothing was written.
\<close>

definition persistence_retrieve :: "LoginResultResponse option prog" where
  "persistence_retrieve = bind (emit Retrieve) (\<lambda>_. bind get_state (\<lambda>s. return (loginStore s)))"

definition persistence_store :: "env \<Rightarrow> LoginResultResponse \<Rightarrow> unit prog" where
  "persistence_store env c =
     bind (emit (Store c)) (\<lambda>_.
       case store_answer env c of
         Some e \<Rightarrow> throw e
       | None \<Rightarrow> modify (\<lambda>s. s\<lparr>loginStore := Some c\<rparr>))"

subsection \<open>The cloud client and the publisher\<close>

definition api_login :: "env \<Rightarrow> LoginResultResponse ResultResponse prog" where
  "api_login env = bind (emit Login) (\<lambda>_. answer (login_answer env))"

definition api_withLogin :: "env \<Rightarrow> LoginResultResponse \<Rightarrow> unit prog" where
  "api_withLogin env c = bind (emit (WithLogin c)) (\<lambda>_. raise_if (withLogin_answer env c))"

definition api_siteHomepage :: "env \<Rightarrow> SiteHomepageResponse ResultResponse prog" where
  "api_siteHomepage env = bind (emit SiteHomepage) (\<lambda>_. answer (siteHomepage_answer env))"

definition api_scenInfo :: "env \<Rightarrow> nat \<Rightarrow> string \<Rightarrow> json ResultResponse prog" where
  "api_scenInfo env i sid = bind (emit (ScenInfo sid)) (\<lambda>_. answer (scenInfo_answer env i sid))"

definition api_getSiteDeviceParam ::
  "env \<Rightarrow> nat \<Rightarrow> nat \<Rightarrow> string \<Rightarrow> string \<Rightarrow> SiteDeviceParamResponse ResultResponse prog" where
  "api_getSiteDeviceParam env i j sid pt =
     bind (emit (GetSiteDeviceParam sid pt)) (\<lambda>_. answer (getSiteDeviceParam_answer env i j sid pt))"

definition publisher_publish :: "env \<Rightarrow> nat \<Rightarrow> string \<Rightarrow> payload \<Rightarrow> unit prog" where
  "publisher_publish env k topic p =
     bind (emit (Publish topic p)) (\<lambda>_. raise_if (publish_answer env k topic p))"

text \<open>
  \<^verbatim>\<open>ParamType.LoadConfiguration\<close> is declared in \<^verbatim>\<open>./api\<close>; \<^verbatim>\<open>ref/e1600.ts\<close>
  reads the schedule with parameter type \<^verbatim>\<open>'4'\<close>.
\<close>

definition ParamType_LoadConfiguration :: string where
  "ParamType_LoadConfiguration = ''4''"

subsection \<open>Numbers in template strings\<close>

function show_nat :: "nat \<Rightarrow> string" where
  "show_nat n =
     (if n < 10 then [''0123456789'' ! n]
      else show_nat (n div 10) @ [''0123456789'' ! (n mod 10)])"
  by pat_completeness auto
termination
  by (relation "measure id") auto

definition show_int :: "int \<Rightarrow> string" where
  "show_int i = (if i < 0 then ''-'' @ show_nat (nat (- i)) else show_nat (nat i))"

section \<open>One cycle: fetchAndPublish (app.ts, lines 27-90)\<close>

text \<open>\<^verbatim>\<open>siteHomepage.data?.site_list ?? []\<close>\<close>

definition site_list_or_empty :: "SiteHomepageResponse ResultResponse \<Rightarrow> Site list" where
  "site_list_or_empty siteHomepage =
     (case data siteHomepage of
        None \<Rightarrow> []
      | Some d \<Rightarrow> (case site_list d of None \<Rightarrow> [] | Some sites \<Rightarrow> sites))"

text \<open>\<^verbatim>\<open>deviceParams.data.param_data\<close>: reading a property of an absent \<^verbatim>\<open>data\<close> throws.\<close>

definition data_param_data :: "SiteDeviceParamResponse ResultResponse \<Rightarrow> payload prog" where
  "data_param_data deviceParams =
     (case data deviceParams of
        None \<Rightarrow> throw (TypeError ''Cannot read properties of undefined (reading param_data)'')
      | Some d \<Rightarrow> return (json_payload (param_data d)))"

text \<open>The body of the loop over the sites (lines 47-84), for the site at position \<open>i\<close>.\<close>

definition site_body :: "config \<Rightarrow> env \<Rightarrow> nat \<Rightarrow> Site \<Rightarrow> unit prog" where
  "site_body cfg env i site =
     bind (api_scenInfo env i (site_id site)) (\<lambda>scenInfo.
     bind (publisher_publish env (2 * i + 1)
             (mqttTopic cfg @ ''/site/'' @ site_name site @ ''/scenInfo'')
             (json_payload (data scenInfo))) (\<lambda>_.
     bind (api_getSiteDeviceParam env i 0 (site_id site) ParamType_LoadConfiguration) (\<lambda>deviceParams.
     bind (data_param_data deviceParams) (\<lambda>schedule.
     bind (publisher_publish env (2 * i + 2)
             (mqttTopic cfg @ ''/site/'' @ site_name site @ ''/schedule'') schedule) (\<lambda>_.
     bind (api_getSiteDeviceParam env i 1 (site_id site) ''3'') (\<lambda>test.
     bind (api_getSiteDeviceParam env i 2 (site_id site) ''2'') (\<lambda>test2.
     bind (api_getSiteDeviceParam env i 3 (site_id site) ''1'') (\<lambda>test1.
     bind (api_getSiteDeviceParam env i 4 (site_id site) ''6'') (\<lambda>test5.
     bind (api_getSiteDeviceParam env i 5 (site_id site) ''6'') (\<lambda>test6.
     return ()))))))))))"

fun sites_loop :: "config \<Rightarrow> env \<Rightarrow> nat \<Rightarrow> Site list \<Rightarrow> unit prog" where
  "sites_loop cfg env i [] = return ()"
| "sites_loop cfg env i (site # rest) =
     bind (site_body cfg env i site) (\<lambda>_. sites_loop cfg env (Suc i) rest)"

text \<open>Lines 29-40: the credential of the cycle, or none.\<close>

definition obtainLogin :: "env \<Rightarrow> LoginResultResponse option prog" where
  "obtainLogin env =
     bind persistence_retrieve (\<lambda>loginData.
     if (case loginData of None \<Rightarrow> True | Some c \<Rightarrow> \<not> isLoginValid c (Date (clock env))) then
       bind (api_login env) (\<lambda>loginResponse.
         case data loginResponse of
           Some fresh \<Rightarrow> bind (persistence_store env fresh) (\<lambda>_. return (Some fresh))
         | None \<Rightarrow>
             bind (logger_error (''Could not log in: '' @ msg loginResponse @ '' ('' @
                     show_int (code loginResponse) @ '')'')) (\<lambda>_. return None))
     else
       bind (logger_log ''Using cached auth data'') (\<lambda>_. return loginData))"

text \<open>Lines 42-86: with a credential.\<close>

definition publishAll :: "config \<Rightarrow> env \<Rightarrow> LoginResultResponse \<Rightarrow> unit prog" where
  "publishAll cfg env loginData =
     bind (api_withLogin env loginData) (\<lambda>loggedInApi.
     bind (api_siteHomepage env) (\<lambda>siteHomepage.
     bind (publisher_publish env 0 (mqttTopic cfg @ ''/site_homepage'')
             (homepage_payload (data siteHomepage))) (\<lambda>_.
     bind (sites_loop cfg env 0 (site_list_or_empty siteHomepage)) (\<lambda>_.
     logger_log ''Published.''))))"

definition fetchAndPublish :: "config \<Rightarrow> env \<Rightarrow> unit prog" where
  "fetchAndPublish cfg env =
     bind (logger_log ''Fetching data'') (\<lambda>_.
     bind (obtainLogin env) (\<lambda>loginData.
     case loginData of
       Some c \<Rightarrow> publishAll cfg env c
     | None \<Rightarrow> logger_error ''Not logged in''))"

section \<open>The scheduler: run (app.ts, lines 15-104) and the process\<close>

text \<open>
  \<^verbatim>\<open>sleep\<close> of \<^verbatim>\<open>./utils\<close> is a timed wait; the model records the duration it is
  given.  The logger and the timed wait do not throw.
\<close>

definition sleep :: "int \<Rightarrow> unit prog" where
  "sleep ms = emit (Sleep ms)"

text \<open>The two clock readings of one turn of the loop, and the answers of its cycle.\<close>

record iter_env =
  start_time :: int
  end_time :: int
  cycle_env :: env

text \<open>One turn of \<^verbatim>\<open>for (;;)\<close>, lines 93-102.\<close>

definition iteration :: "config \<Rightarrow> iter_env \<Rightarrow> unit prog" where
  "iteration cfg ie =
     (let start = start_time ie in
      bind (try_catch (fetchAndPublish cfg (cycle_env ie))
              (\<lambda>e. logger_warn ''Failed fetching or publishing printer data'' e)) (\<lambda>_.
      let end' = end_time ie - start;
          sleepInterval = pollInterval cfg * 1000 - end'
      in bind (logger_log (''Sleeping for '' @ show_int sleepInterval @ ''ms...'')) (\<lambda>_.
         sleep sleepInterval)))"

text \<open>
  The loop has no exit of its own: it ends only when an exception escapes a turn.  With
  fuel \<open>n\<close> it runs \<open>n\<close> turns; the result \<open>None\<close> says that it is still running.
\<close>

fun run_loop ::
  "config \<Rightarrow> (nat \<Rightarrow> iter_env) \<Rightarrow> nat \<Rightarrow> nat \<Rightarrow> world \<Rightarrow> exn option \<times> world" where
  "run_loop cfg envs i 0 s = (None, s)"
| "run_loop cfg envs i (Suc n) s =
     (case iteration cfg (envs i) s of
        (Inl e, s') \<Rightarrow> (Some e, s')
      | (Inr _, s') \<Rightarrow> run_loop cfg envs (Suc i) n s')"

text \<open>
  \<^verbatim>\<open>run()\<close>: the first log line prints the anonymised configuration, whose text
  (\<^verbatim>\<open>JSON.stringify(anonymizeConfig(config))\<close>) is a parameter.
\<close>

definition run ::
  "config \<Rightarrow> string \<Rightarrow> (nat \<Rightarrow> iter_env) \<Rightarrow> nat \<Rightarrow> world \<Rightarrow> exn option \<times> world" where
  "run cfg cfg_json envs n s = run_loop cfg envs 0 n (snd (logger_log cfg_json s))"

datatype status = Running | Exited int

fun exn_text :: "exn \<Rightarrow> string" where
  "exn_text (Error m) = ''Error: '' @ m"
| "exn_text (TypeError m) = ''TypeError: '' @ m"

text \<open>
  The process (lines 8 and 106-113).  \<^verbatim>\<open>getConfig()\<close> of \<^verbatim>\<open>./config\<close> runs when the
  module loads; its outcome is a parameter: an exception there (a missing user name or
  password) is uncaught and ends the process with a non-zero status.  A rejected
  \<^verbatim>\<open>run()\<close> is logged and ends the process with status 1.
\<close>

definition main ::
  "exn + config \<Rightarrow> string \<Rightarrow> (nat \<Rightarrow> iter_env) \<Rightarrow> nat \<Rightarrow> world \<Rightarrow> status \<times> world" where
  "main getConfig_answer cfg_json envs n s =
     (case getConfig_answer of
        Inl e \<Rightarrow> (Exited 1, s)
      | Inr cfg \<Rightarrow>
          (case run cfg cfg_json envs n s of
             (Some err, s') \<Rightarrow> (Exited 1, snd (logger_error (exn_text err) s'))
           | (None, s') \<Rightarrow> (Running, s')))"

section \<open>The reference client: SolixE1600 (ref/e1600.ts)\<close>

text \<open>
  The object keeps its credential (\<^verbatim>\<open>this.config.loginCredentials\<close>) and its session
  (\<^verbatim>\<open>this.apiSession\<close>, here the credential it was made from) between calls.  Its
  session is untyped, so a call may also resolve to \<^verbatim>\<open>undefined\<close> (\<open>None\<close>);
  \<open>e_siteHomepage_answer\<close> is asked with the number of the attempt.
\<close>

record SolixE1600 = traced +
  loginCredentials :: "LoginResultResponse option"
  apiSession :: "LoginResultResponse option"

record e1600_env =
  e_login_answer :: "exn + LoginResultResponse ResultResponse"
  e_withLogin_answer :: "LoginResultResponse \<Rightarrow> exn option"
  e_siteHomepage_answer :: "nat \<Rightarrow> exn + SiteHomepageResponse ResultResponse option"

type_synonym 'a e1600_prog = "SolixE1600 \<Rightarrow> (exn + 'a) \<times> SolixE1600"

text \<open>\<^verbatim>\<open>_init\<close>, lines 61-85.\<close>

definition e1600_init :: "e1600_env \<Rightarrow> unit e1600_prog" where
  "e1600_init env =
     bind get_state (\<lambda>this.
     bind (if loginCredentials this = None then
             bind (emit Login) (\<lambda>_.
             bind (answer (e_login_answer env)) (\<lambda>loginResponse.
             bind (emit (ConsoleLog ''LoginResponse'')) (\<lambda>_.
             if code loginResponse = 100053 then throw (Error (msg loginResponse))
             else modify (\<lambda>t. t\<lparr>loginCredentials := data loginResponse\<rparr>))))
           else return ()) (\<lambda>_.
     bind get_state (\<lambda>this.
     case loginCredentials this of
       None \<Rightarrow> throw (Error ''Unable to retrieve auth_token during API login'')
     | Some c \<Rightarrow>
         (case apiSession this of
            Some _ \<Rightarrow> return ()
          | None \<Rightarrow>
              bind (emit (WithLogin c)) (\<lambda>_.
              case e_withLogin_answer env c of
                None \<Rightarrow> modify (\<lambda>t. t\<lparr>apiSession := Some c\<rparr>)
              | Some e \<Rightarrow>
                  bind (emit (ConsoleError e)) (\<lambda>_.
                  bind (modify (\<lambda>t. t\<lparr>loginCredentials := None\<rparr>)) (\<lambda>_.
                  throw (Error ''Login failed''))))))))"

definition session_siteHomepage ::
  "e1600_env \<Rightarrow> nat \<Rightarrow> SiteHomepageResponse ResultResponse option e1600_prog" where
  "session_siteHomepage env k = bind (emit SiteHomepage) (\<lambda>_. answer (e_siteHomepage_answer env k))"

text \<open>\<^verbatim>\<open>getSitehomepage\<close>, lines 143-157.\<close>

definition getSitehomepage :: "e1600_env \<Rightarrow> SiteHomepageResponse option e1600_prog" where
  "getSitehomepage env =
     bind (e1600_init env) (\<lambda>_.
     bind (session_siteHomepage env 0) (\<lambda>sites.
     case sites of
       Some r \<Rightarrow> return (data r)
     | None \<Rightarrow>
         bind (emit (SetTimeout 1000)) (\<lambda>_.
         bind (session_siteHomepage env 1) (\<lambda>sites'.
         case sites' of
           None \<Rightarrow> throw (Error ''Unable to retrieve Sitehomepage'')
         | Some r \<Rightarrow> return (data r)))))"

section \<open>Reading a trace\<close>

text \<open>The events that a computation adds to the trace of the state it starts from.\<close>

definition events_of ::
  "('z traced_scheme \<Rightarrow> 'r \<times> 'z traced_scheme) \<Rightarrow> 'z traced_scheme \<Rightarrow> event list" where
  "events_of m s = drop (length (trace s)) (trace (snd (m s)))"

fun published_topics :: "event list \<Rightarrow> string list" where
  "published_topics [] = []"
| "published_topics (Publish topic p # es) = topic # published_topics es"
| "published_topics (_ # es) = published_topics es"

fun stored :: "event list \<Rightarrow> LoginResultResponse list" where
  "stored [] = []"
| "stored (Store c # es) = c # stored es"
| "stored (_ # es) = stored es"

fun sleeps :: "event list \<Rightarrow> int list" where
  "sleeps [] = []"
| "sleeps (Sleep d # es) = d # sleeps es"
| "sleeps (_ # es) = sleeps es"

text \<open>The topics of a cycle as the specification lists them.\<close>

definition site_topics :: "string \<Rightarrow> Site \<Rightarrow> string list" where
  "site_topics p site =
     [p @ ''/site/'' @ site_name site @ ''/scenInfo'', p @ ''/site/'' @ site_name site @ ''/schedule'']"

text \<open>The events of a site whose turn runs to its end, with the two payloads published.\<close>

definition site_events :: "config \<Rightarrow> Site \<Rightarrow> payload \<Rightarrow> payload \<Rightarrow> event list" where
  "site_events cfg site scen schedule =
     [ScenInfo (site_id site),
      Publish (mqttTopic cfg @ ''/site/'' @ site_name site @ ''/scenInfo'') scen,
      GetSiteDeviceParam (site_id site) ParamType_LoadConfiguration,
      Publish (mqttTopic cfg @ ''/site/'' @ site_name site @ ''/schedule'') schedule,
      GetSiteDeviceParam (site_id site) ''3'',
      GetSiteDeviceParam (site_id site) ''2'',
      GetSiteDeviceParam (site_id site) ''1'',
      GetSiteDeviceParam (site_id site) ''6'',
      GetSiteDeviceParam (site_id site) ''6'']"

text \<open>
  The same nine events for the site at position \<open>i\<close> of a cycle, the payloads being what
  the scenario info call and the schedule call of that site were answered.
\<close>

definition completed_site_events :: "config \<Rightarrow> env \<Rightarrow> nat \<Rightarrow> Site \<Rightarrow> event list" where
  "completed_site_events cfg env i site =
     site_events cfg site
       (case scenInfo_answer env i (site_id site) of
          Inr scen \<Rightarrow> json_payload (data scen)
        | Inl _ \<Rightarrow> Undefined)
       (case getSiteDeviceParam_answer env i 0 (site_id site) ParamType_LoadConfiguration of
          Inr dp \<Rightarrow> (case data dp of Some d \<Rightarrow> json_payload (param_data d) | None \<Rightarrow> Undefined)
        | Inl _ \<Rightarrow> Undefined)"

fun all_site_events :: "config \<Rightarrow> env \<Rightarrow> nat \<Rightarrow> Site list \<Rightarrow> event list" where
  "all_site_events cfg env i [] = []"
| "all_site_events cfg env i (site # rest) =
     completed_site_events cfg env i site @ all_site_events cfg env (Suc i) rest"

text \<open>The parameter types of the five further retrievals, in the order of the calls.\<close>

definition diagnostic_types :: "string list" where
  "diagnostic_types = [''3'', ''2'', ''1'', ''6'', ''6'']"

definition cycle_topics :: "string \<Rightarrow> Site list \<Rightarrow> string list" where
  "cycle_topics p sites = (p @ ''/site_homepage'') # concat (map (site_topics p) sites)"

text \<open>
  A computation \<open>emits P\<close> when it only appends to the trace, and only events that
  satisfy \<open>P\<close>.
\<close>

definition emits :: "(event \<Rightarrow> bool) \<Rightarrow> ('z traced_scheme \<Rightarrow> 'r \<times> 'z traced_scheme) \<Rightarrow> bool" where
  "emits P m = (\<forall>s. \<exists>es. trace (snd (m s)) = trace s @ es \<and> list_all P es)"

fun credential_event :: "event \<Rightarrow> bool" where
  "credential_event (Log m) = (m = ''Using cached auth data'')"
| "credential_event (LogError _) = True"
| "credential_event Retrieve = True"
| "credential_event (Store _) = True"
| "credential_event Login = True"
| "credential_event _ = False"

fun site_event :: "event \<Rightarrow> bool" where
  "site_event (ScenInfo _) = True"
| "site_event (GetSiteDeviceParam _ _) = True"
| "site_event (Publish _ _) = True"
| "site_event _ = False"

fun session_event :: "event \<Rightarrow> bool" where
  "session_event (WithLogin _) = True"
| "session_event SiteHomepage = True"
| "session_event (Log m) = (m = ''Published.'')"
| "session_event ev = site_event ev"

text \<open>Events other than an overview call and a wait.\<close>

fun no_overview :: "event \<Rightarrow> bool" where
  "no_overview SiteHomepage = False"
| "no_overview (SetTimeout _) = False"
| "no_overview _ = True"

fun cycle_event :: "event \<Rightarrow> bool" where
  "cycle_event (Sleep _) = False"
| "cycle_event (LogWarn _ _) = False"
| "cycle_event _ = True"

fun no_sleep :: "event \<Rightarrow> bool" where
  "no_sleep (Sleep _) = False"
| "no_sleep _ = True"

text \<open>
  The same answers, except that every diagnostic retrieval (the second to the sixth
  \<^verbatim>\<open>getSiteDeviceParam\<close> call for a site) that returns, returns what \<open>other\<close> says.
\<close>

definition replace_diagnostics ::
  "(nat \<Rightarrow> nat \<Rightarrow> string \<Rightarrow> string \<Rightarrow> SiteDeviceParamResponse ResultResponse) \<Rightarrow> env \<Rightarrow> env" where
  "replace_diagnostics other env =
     env\<lparr>getSiteDeviceParam_answer := (\<lambda>i j sid pt.
       if j = 0 then getSiteDeviceParam_answer env i j sid pt
       else (case getSiteDeviceParam_answer env i j sid pt of
               Inl e \<Rightarrow> Inl e
             | Inr _ \<Rightarrow> Inr (other i j sid pt)))\<rparr>"

section \<open>Sample runs\<close>

definition ex_cfg :: config where
  "ex_cfg = \<lparr>mqttTopic = ''anker'', pollInterval = 60\<rparr>"

definition ex_cred :: LoginResultResponse where
  "ex_cred = \<lparr>auth_token = ''token'', token_expires_at = 1700003600\<rparr>"

definition ex_home :: Site where
  "ex_home = \<lparr>site_id = ''s1'', site_name = ''Home''\<rparr>"

definition ex_cabin :: Site where
  "ex_cabin = \<lparr>site_id = ''s2'', site_name = ''Cabin''\<rparr>"

definition ex_overview :: "Site list \<Rightarrow> SiteHomepageResponse ResultResponse" where
  "ex_overview sites =
     \<lparr>code = 0, msg = ''success!'', data = Some \<lparr>site_list = Some sites, homepage_rest = ''{}''\<rparr>\<rparr>"

text \<open>Every collaborator answers; the account has the one site Home.\<close>

definition ex_env :: env where
  "ex_env =
     \<lparr>clock = 1700000000000,
      login_answer = Inr \<lparr>code = 0, msg = ''success!'', data = Some ex_cred\<rparr>,
      withLogin_answer = (\<lambda>_. None),
      siteHomepage_answer = Inr (ex_overview [ex_home]),
      scenInfo_answer = (\<lambda>_ _. Inr \<lparr>code = 0, msg = ''success!'', data = Some ''scen''\<rparr>),
      getSiteDeviceParam_answer = (\<lambda>_ _ _ _.
        Inr \<lparr>code = 0, msg = ''success!'', data = Some \<lparr>param_data = Some ''ranges''\<rparr>\<rparr>),
      publish_answer = (\<lambda>_ _ _. None),
      store_answer = (\<lambda>_. None)\<rparr>"

text \<open>Two sites; the schedule retrieval for the first one fails.\<close>

definition ex_env_schedule_fails :: env where
  "ex_env_schedule_fails =
     ex_env\<lparr>siteHomepage_answer := Inr (ex_overview [ex_home, ex_cabin]),
            getSiteDeviceParam_answer := (\<lambda>i j sid pt.
              if i = 0 \<and> j = 0 then Inl (Error ''timeout'')
              else Inr \<lparr>code = 0, msg = ''success!'', data = Some \<lparr>param_data = Some ''ranges''\<rparr>\<rparr>)\<rparr>"

text \<open>Two sites; every collaborator answers.\<close>

definition ex_env_two_sites :: env where
  "ex_env_two_sites = ex_env\<lparr>siteHomepage_answer := Inr (ex_overview [ex_home, ex_cabin])\<rparr>"

text \<open>Two sites; the first of the five further retrievals for the first site fails.\<close>

definition ex_env_diagnostic_fails :: env where
  "ex_env_diagnostic_fails =
     ex_env_two_sites\<lparr>getSiteDeviceParam_answer := (\<lambda>i j sid pt.
       if i = 0 \<and> j = 1 then Inl (Error ''timeout'')
       else Inr \<lparr>code = 0, msg = ''success!'', data = Some \<lparr>param_data = Some ''ranges''\<rparr>\<rparr>)\<rparr>"

text \<open>The scenario info retrieval fails.\<close>

definition ex_env_scen_fails :: env where
  "ex_env_scen_fails = ex_env\<lparr>scenInfo_answer := (\<lambda>_ _. Inl (Error ''timeout''))\<rparr>"

text \<open>The session cannot be established from the credential.\<close>

definition ex_env_rejected :: env where
  "ex_env_rejected = ex_env\<lparr>withLogin_answer := (\<lambda>_. Some (Error ''rejected''))\<rparr>"

text \<open>The overview answer carries no data.\<close>

definition ex_env_no_data :: env where
  "ex_env_no_data = ex_env\<lparr>siteHomepage_answer := Inr \<lparr>code = 401, msg = ''failed'', data = None\<rparr>\<rparr>"

definition ex_empty :: world where
  "ex_empty = \<lparr>trace = [], loginStore = None\<rparr>"

definition ex_cached :: world where
  "ex_cached = \<lparr>trace = [], loginStore = Some ex_cred\<rparr>"

text \<open>Turns of the loop that take 5 and 65 seconds.\<close>

definition ex_turn :: "int \<Rightarrow> env \<Rightarrow> iter_env" where
  "ex_turn elapsed env = \<lparr>start_time = 1700000000000, end_time = 1700000000000 + elapsed, cycle_env = env\<rparr>"

text \<open>The reference client: a session is established, the overview is undefined once.\<close>

definition ex_e1600_env :: e1600_env where
  "ex_e1600_env =
     \<lparr>e_login_answer = Inr \<lparr>code = 0, msg = ''success!'', data = Some ex_cred\<rparr>,
      e_withLogin_answer = (\<lambda>_. None),
      e_siteHomepage_answer = (\<lambda>k. if k = 0 then Inr None else Inr (Some (ex_overview [ex_home])))\<rparr>"

definition ex_e1600 :: SolixE1600 where
  "ex_e1600 = \<lparr>trace = [], loginCredentials = None, apiSession = None\<rparr>"

section \<open>Laws of the computations\<close>

lemma return_apply: "return x s = (Inr x, s)"
  by (simp add: return_def)

lemma throw_apply: "throw e s = (Inl e, s)"
  by (simp add: throw_def)

lemma emit_apply: "emit ev s = (Inr (), s\<lparr>trace := trace s @ [ev]\<rparr>)"
  by (simp add: emit_def)

lemma answer_apply: "answer r s = (r, s)"
  by (simp add: answer_def)

lemma modify_apply: "modify f s = (Inr (), f s)"
  by (simp add: modify_def)

lemma bind_apply_Inl: "m s = (Inl e, s') \<Longrightarrow> bind m f s = (Inl e, s')"
  by (simp add: bind_def)

lemma bind_apply_Inr: "m s = (Inr x, s') \<Longrightarrow> bind m f s = f x s'"
  by (simp add: bind_def)

lemma bind_return: "bind (return x) f = f x"
  by (simp add: bind_def return_def)

lemma bind_throw: "bind (throw e) f = throw e"
  by (simp add: bind_def throw_def)

lemma bind_emit: "bind (emit ev) f s = f () (s\<lparr>trace := trace s @ [ev]\<rparr>)"
  by (simp add: bind_def emit_def)

lemma bind_get_state: "bind get_state f s = f s s"
  by (simp add: bind_def get_state_def)

lemma bind_modify: "bind (modify g) f s = f () (g s)"
  by (simp add: bind_def modify_def)

lemma bind_answer_Inr: "bind (answer (Inr x)) f = f x"
  by (simp add: bind_def answer_def)

lemma bind_answer_Inl: "bind (answer (Inl e)) f = throw e"
  by (simp add: bind_def answer_def throw_def)

lemma bind_assoc: "bind (bind m f) g = bind m (\<lambda>x. bind (f x) g)"
  by (auto simp: bind_def fun_eq_iff split: prod.splits sum.splits)

lemma bind_answer: "bind (answer r) f s = (case r of Inl e \<Rightarrow> (Inl e, s) | Inr x \<Rightarrow> f x s)"
  by (simp add: bind_def answer_def split: sum.split)

lemma bind_InrE:
  assumes "bind m f s = (Inr y, s')"
  obtains x s1 where "m s = (Inr x, s1)" and "f x s1 = (Inr y, s')"
  using assms by (auto simp: bind_def split: prod.splits sum.splits)

lemma raise_if_simps: "raise_if None = return ()" "raise_if (Some e) = throw e"
  by (simp_all add: raise_if_def)

lemmas prog_laws = return_apply throw_apply emit_apply answer_apply modify_apply bind_return
  bind_throw bind_emit bind_get_state bind_modify bind_answer_Inr bind_answer_Inl bind_assoc
  raise_if_simps

lemmas prog_defs = return_def throw_def bind_def try_catch_def emit_def answer_def raise_if_def
  get_state_def modify_def

lemmas call_defs = logger_log_def logger_error_def logger_warn_def persistence_retrieve_def
  persistence_store_def api_login_def api_withLogin_def api_siteHomepage_def api_scenInfo_def
  api_getSiteDeviceParam_def publisher_publish_def sleep_def data_param_data_def

lemmas ex_defs = ex_cfg_def ex_cred_def ex_home_def ex_cabin_def ex_overview_def ex_env_def
  ex_env_schedule_fails_def ex_env_scen_fails_def ex_env_two_sites_def
  ex_env_diagnostic_fails_def ex_env_rejected_def ex_env_no_data_def ex_empty_def ex_cached_def
  ex_turn_def

section \<open>What a computation may write\<close>

lemma emits_return: "emits P (return x)"
  by (simp add: emits_def return_def)

lemma emits_throw: "emits P (throw e)"
  by (simp add: emits_def throw_def)

lemma emits_answer: "emits P (answer r)"
  by (simp add: emits_def answer_def)

lemma emits_get_state: "emits P get_state"
  by (simp add: emits_def get_state_def)

lemma emits_raise_if: "emits P (raise_if r)"
  by (cases r) (simp_all add: raise_if_simps emits_return emits_throw)

lemma emits_emit: "P ev \<Longrightarrow> emits P (emit ev)"
  by (simp add: emits_def emit_def)

lemma emits_bind:
  assumes "emits P m" and "\<And>x. emits P (f x)"
  shows "emits P (bind m f)"
  unfolding emits_def
proof
  fix s
  from assms(1) obtain es where es: "trace (snd (m s)) = trace s @ es" "list_all P es"
    unfolding emits_def by blast
  show "\<exists>es. trace (snd (bind m f s)) = trace s @ es \<and> list_all P es"
  proof (cases "m s")
    case (Pair r s')
    show ?thesis
    proof (cases r)
      case (Inl e)
      with Pair es show ?thesis by (auto simp: bind_def)
    next
      case (Inr x)
      from assms(2) [of x] obtain es' where
        es': "trace (snd (f x s')) = trace s' @ es'" "list_all P es'"
        unfolding emits_def by blast
      with Pair Inr es
      have "trace (snd (bind m f s)) = trace s @ (es @ es') \<and> list_all P (es @ es')"
        by (simp add: bind_def)
      then show ?thesis by blast
    qed
  qed
qed

lemma emits_try_catch:
  assumes "emits P m" and "\<And>e. emits P (h e)"
  shows "emits P (try_catch m h)"
  unfolding emits_def
proof
  fix s
  from assms(1) obtain es where es: "trace (snd (m s)) = trace s @ es" "list_all P es"
    unfolding emits_def by blast
  show "\<exists>es. trace (snd (try_catch m h s)) = trace s @ es \<and> list_all P es"
  proof (cases "m s")
    case (Pair r s')
    show ?thesis
    proof (cases r)
      case (Inr x)
      with Pair es show ?thesis by (auto simp: try_catch_def)
    next
      case (Inl e)
      from assms(2) [of e] obtain es' where
        es': "trace (snd (h e s')) = trace s' @ es'" "list_all P es'"
        unfolding emits_def by blast
      with Pair Inl es
      have "trace (snd (try_catch m h s)) = trace s @ (es @ es') \<and> list_all P (es @ es')"
        by (simp add: try_catch_def)
      then show ?thesis by blast
    qed
  qed
qed

lemma emits_mono:
  assumes "emits P m" and "\<And>ev. P ev \<Longrightarrow> Q ev"
  shows "emits Q m"
  using assms unfolding emits_def list_all_iff by blast

lemma emits_if: "emits P a \<Longrightarrow> emits P b \<Longrightarrow> emits P (if c then a else b)"
  by simp

lemma emits_case_option:
  "emits P a \<Longrightarrow> (\<And>x. emits P (b x)) \<Longrightarrow> emits P (case v of None \<Rightarrow> a | Some x \<Rightarrow> b x)"
  by (cases v) simp_all

lemma emits_store_update: "emits P (modify (\<lambda>s. s\<lparr>loginStore := v\<rparr>))"
  by (simp add: emits_def modify_def)

lemmas emits_rules = emits_bind emits_try_catch emits_if emits_case_option emits_return
  emits_throw emits_answer emits_get_state emits_raise_if emits_store_update

lemma emits_events_of:
  assumes "emits P m"
  shows "trace (snd (m s)) = trace s @ events_of m s \<and> list_all P (events_of m s)"
proof -
  from assms obtain es where "trace (snd (m s)) = trace s @ es" "list_all P es"
    unfolding emits_def by blast
  then show ?thesis by (simp add: events_of_def)
qed

lemma events_of_eq: "trace (snd (m s)) = trace s @ es \<Longrightarrow> events_of m s = es"
  by (simp add: events_of_def)

subsection \<open>The per-site part and the session part of a cycle\<close>

lemma emits_site_body: "emits site_event (site_body cfg env i site)"
  unfolding site_body_def api_scenInfo_def api_getSiteDeviceParam_def publisher_publish_def
    data_param_data_def
  by (intro emits_bind emits_emit emits_answer emits_raise_if emits_return)
     (simp_all add: emits_throw emits_return split: option.split)

lemma emits_sites_loop: "emits site_event (sites_loop cfg env i sites)"
  by (induction sites arbitrary: i) (simp_all add: emits_return emits_bind emits_site_body)

lemma site_event_session_event: "site_event ev \<Longrightarrow> session_event ev"
  by (cases ev) simp_all

lemma emits_publishAll: "emits session_event (publishAll cfg env c)"
  unfolding publishAll_def api_withLogin_def api_siteHomepage_def publisher_publish_def
    logger_log_def
  by (intro emits_bind emits_emit emits_answer emits_raise_if
        emits_mono [OF emits_sites_loop site_event_session_event])
     simp_all

lemma session_event_cycle_event: "session_event ev \<Longrightarrow> cycle_event ev"
  by (cases ev) simp_all

lemma credential_event_cycle_event: "credential_event ev \<Longrightarrow> cycle_event ev"
  by (cases ev) simp_all

lemma emits_obtainLogin: "emits credential_event (obtainLogin env)"
  unfolding obtainLogin_def persistence_retrieve_def api_login_def persistence_store_def
    logger_error_def logger_log_def
  by (intro emits_rules emits_emit) simp_all

lemma emits_fetchAndPublish: "emits cycle_event (fetchAndPublish cfg env)"
  unfolding fetchAndPublish_def logger_log_def logger_error_def
  by (intro emits_rules emits_emit
        emits_mono [OF emits_obtainLogin credential_event_cycle_event]
        emits_mono [OF emits_publishAll session_event_cycle_event])
     simp_all

text \<open>A cycle only appends to the trace: its events are what it adds.\<close>

lemma fetchAndPublish_appends:
  "trace (snd (fetchAndPublish cfg env s)) = trace s @ events_of (fetchAndPublish cfg env) s"
  using emits_events_of [OF emits_fetchAndPublish] by blast

section \<open>The credential stage\<close>

lemma obtainLogin_cached:
  assumes "loginStore s = Some c" and "isLoginValid c (Date (clock env))"
  shows "obtainLogin env s =
    (Inr (Some c), s\<lparr>trace := trace s @ [Retrieve, Log ''Using cached auth data'']\<rparr>)"
  using assms by (simp add: obtainLogin_def call_defs prog_laws)

lemma obtainLogin_login:
  assumes "loginStore s = None \<or> (loginStore s = Some c \<and> \<not> isLoginValid c (Date (clock env)))"
  shows "obtainLogin env s =
    (case login_answer env of
       Inl e \<Rightarrow> (Inl e, s\<lparr>trace := trace s @ [Retrieve, Login]\<rparr>)
     | Inr r \<Rightarrow>
        (case data r of
           None \<Rightarrow> (Inr None, s\<lparr>trace := trace s @ [Retrieve, Login,
             LogError (''Could not log in: '' @ msg r @ '' ('' @ show_int (code r) @ '')'')]\<rparr>)
         | Some fresh \<Rightarrow>
            (case store_answer env fresh of
               Some e \<Rightarrow> (Inl e, s\<lparr>trace := trace s @ [Retrieve, Login, Store fresh]\<rparr>)
             | None \<Rightarrow> (Inr (Some fresh),
                 s\<lparr>trace := trace s @ [Retrieve, Login, Store fresh], loginStore := Some fresh\<rparr>))))"
  using assms
  by (auto simp: obtainLogin_def call_defs prog_laws split: sum.split option.split)

lemma obtainLogin_store:
  assumes "obtainLogin env s = (Inr (Some c), s1)"
  shows "loginStore s1 = Some c"
proof (cases "loginStore s")
  case None
  from obtainLogin_login [of s _ env] None assms show ?thesis
    by (auto split: sum.splits option.splits)
next
  case (Some c')
  show ?thesis
  proof (cases "isLoginValid c' (Date (clock env))")
    case True
    from obtainLogin_cached [OF Some True] assms show ?thesis using Some by auto
  next
    case False
    from obtainLogin_login [of s c' env] Some False assms show ?thesis
      by (auto split: sum.splits option.splits)
  qed
qed

lemma fetchAndPublish_stages:
  "fetchAndPublish cfg env s =
     (case obtainLogin env (s\<lparr>trace := trace s @ [Log ''Fetching data'']\<rparr>) of
        (Inl e, s1) \<Rightarrow> (Inl e, s1)
      | (Inr None, s1) \<Rightarrow> (Inr (), s1\<lparr>trace := trace s1 @ [LogError ''Not logged in'']\<rparr>)
      | (Inr (Some c), s1) \<Rightarrow> publishAll cfg env c s1)"
  by (simp add: fetchAndPublish_def logger_log_def logger_error_def bind_emit bind_def emit_apply
      split: prod.split sum.split option.split)

lemma stored_append: "stored (xs @ ys) = stored xs @ stored ys"
  by (induction xs rule: stored.induct) simp_all

lemma session_events_quiet:
  assumes "list_all session_event es"
  shows "count_list es Login = 0 \<and> stored es = []"
  using assms
proof (induction es)
  case Nil
  then show ?case by simp
next
  case (Cons ev es)
  then show ?case by (cases ev) simp_all
qed

section \<open>The events of a cycle\<close>

text \<open>A cycle that continues with the session part after some events of its own.\<close>

lemma events_of_session_part:
  assumes "fetchAndPublish cfg env s = publishAll cfg env c s1"
    and "trace s1 = trace s @ es1"
  shows "\<exists>es. events_of (fetchAndPublish cfg env) s = es1 @ es \<and> list_all session_event es"
proof -
  from emits_publishAll [of cfg env c] obtain es where
    es: "trace (snd (publishAll cfg env c s1)) = trace s1 @ es" "list_all session_event es"
    unfolding emits_def by blast
  with assms have "trace (snd (fetchAndPublish cfg env s)) = trace s @ (es1 @ es)"
    by simp
  then have "events_of (fetchAndPublish cfg env) s = es1 @ es"
    by (rule events_of_eq)
  with es(2) show ?thesis by blast
qed

lemma cycle_events_cached:
  assumes "loginStore s = Some c" and "isLoginValid c (Date (clock env))"
  shows "\<exists>es. events_of (fetchAndPublish cfg env) s =
            [Log ''Fetching data'', Retrieve, Log ''Using cached auth data''] @ es \<and>
          list_all session_event es"
proof -
  let ?s0 = "s\<lparr>trace := trace s @ [Log ''Fetching data'']\<rparr>"
  from assms have "obtainLogin env ?s0 =
      (Inr (Some c), ?s0\<lparr>trace := trace ?s0 @ [Retrieve, Log ''Using cached auth data'']\<rparr>)"
    by (intro obtainLogin_cached) simp_all
  then have "fetchAndPublish cfg env s = publishAll cfg env c
      (?s0\<lparr>trace := trace ?s0 @ [Retrieve, Log ''Using cached auth data'']\<rparr>)"
    by (simp add: fetchAndPublish_stages)
  from events_of_session_part [OF this] show ?thesis by simp
qed

lemma cycle_events_login:
  assumes "loginStore s = None \<or> (loginStore s = Some c \<and> \<not> isLoginValid c (Date (clock env)))"
  shows "\<exists>es. events_of (fetchAndPublish cfg env) s = [Log ''Fetching data'', Retrieve, Login] @ es \<and>
          count_list es Login = 0 \<and>
          (case login_answer env of
             Inl e \<Rightarrow> stored es = []
           | Inr r \<Rightarrow> (case data r of None \<Rightarrow> stored es = [] | Some fresh \<Rightarrow> stored es = [fresh]))"
proof -
  let ?s0 = "s\<lparr>trace := trace s @ [Log ''Fetching data'']\<rparr>"
  from assms have a: "loginStore ?s0 = None \<or>
      (loginStore ?s0 = Some c \<and> \<not> isLoginValid c (Date (clock env)))"
    by simp
  note ob = obtainLogin_login [OF a]
  show ?thesis
  proof (cases "login_answer env")
    case (Inl e)
    with ob have "fetchAndPublish cfg env s = (Inl e, ?s0\<lparr>trace := trace ?s0 @ [Retrieve, Login]\<rparr>)"
      by (simp add: fetchAndPublish_stages)
    then have "events_of (fetchAndPublish cfg env) s = [Log ''Fetching data'', Retrieve, Login] @ []"
      by (simp add: events_of_def)
    with Inl show ?thesis by simp
  next
    case (Inr r)
    show ?thesis
    proof (cases "data r")
      case None
      with ob Inr have "events_of (fetchAndPublish cfg env) s =
        [Log ''Fetching data'', Retrieve, Login] @
        [LogError (''Could not log in: '' @ msg r @ '' ('' @ show_int (code r) @ '')''),
         LogError ''Not logged in'']"
        by (simp add: fetchAndPublish_stages events_of_def)
      with Inr None show ?thesis by simp
    next
      case (Some fresh)
      show ?thesis
      proof (cases "store_answer env fresh")
        case (Some e)
        with ob Inr \<open>data r = Some fresh\<close> have "events_of (fetchAndPublish cfg env) s =
          [Log ''Fetching data'', Retrieve, Login] @ [Store fresh]"
          by (simp add: fetchAndPublish_stages events_of_def)
        with Inr \<open>data r = Some fresh\<close> show ?thesis by simp
      next
        case None
        let ?s1 = "?s0\<lparr>trace := trace ?s0 @ [Retrieve, Login, Store fresh], loginStore := Some fresh\<rparr>"
        from ob Inr \<open>data r = Some fresh\<close> None
        have "fetchAndPublish cfg env s = publishAll cfg env fresh ?s1"
          by (simp add: fetchAndPublish_stages)
        from events_of_session_part [OF this, of "[Log ''Fetching data'', Retrieve, Login, Store fresh]"]
        obtain es where es: "events_of (fetchAndPublish cfg env) s =
            [Log ''Fetching data'', Retrieve, Login] @ (Store fresh # es)" "list_all session_event es"
          by auto
        from session_events_quiet [OF es(2)] have "count_list (Store fresh # es) Login = 0"
          and "stored (Store fresh # es) = [fresh]"
          by simp_all
        with es(1) Inr \<open>data r = Some fresh\<close> show ?thesis by auto
      qed
    qed
  qed
qed

lemma cycle_login_calls:
  "count_list (events_of (fetchAndPublish cfg env) s) Login =
     (case loginStore s of
        None \<Rightarrow> 1
      | Some c \<Rightarrow> if isLoginValid c (Date (clock env)) then 0 else 1)"
proof (cases "loginStore s")
  case None
  from cycle_events_login [of s _ env cfg] None show ?thesis by auto
next
  case (Some c)
  show ?thesis
  proof (cases "isLoginValid c (Date (clock env))")
    case True
    from cycle_events_cached [OF Some True, of cfg] obtain es where
      "events_of (fetchAndPublish cfg env) s =
        [Log ''Fetching data'', Retrieve, Log ''Using cached auth data''] @ es"
      "list_all session_event es"
      by blast
    with session_events_quiet [of es] Some True show ?thesis by simp
  next
    case False
    from cycle_events_login [of s c env cfg] Some False show ?thesis by auto
  qed
qed

section \<open>The loop over the sites\<close>

lemma api_scenInfo_Inr:
  assumes "api_scenInfo env i sid s = (Inr x, s1)"
  shows "scenInfo_answer env i sid = Inr x \<and> s1 = s\<lparr>trace := trace s @ [ScenInfo sid]\<rparr>"
  using assms by (auto simp: api_scenInfo_def bind_emit answer_apply)

lemma api_getSiteDeviceParam_Inr:
  assumes "api_getSiteDeviceParam env i j sid pt s = (Inr x, s1)"
  shows "getSiteDeviceParam_answer env i j sid pt = Inr x \<and>
         s1 = s\<lparr>trace := trace s @ [GetSiteDeviceParam sid pt]\<rparr>"
  using assms by (auto simp: api_getSiteDeviceParam_def bind_emit answer_apply)

lemma publisher_publish_Inr:
  assumes "publisher_publish env k topic p s = (Inr x, s1)"
  shows "publish_answer env k topic p = None \<and> s1 = s\<lparr>trace := trace s @ [Publish topic p]\<rparr>"
  using assms
  by (cases "publish_answer env k topic p")
     (auto simp: publisher_publish_def bind_emit prog_laws)

lemma data_param_data_Inr:
  assumes "data_param_data dp s = (Inr p, s1)"
  shows "\<exists>d. data dp = Some d \<and> p = json_payload (param_data d) \<and> s1 = s"
  using assms by (cases "data dp") (auto simp: data_param_data_def prog_laws)

lemma site_body_success:
  assumes "site_body cfg env i site s = (Inr (), s')"
  shows "\<exists>scen dp d.
     scenInfo_answer env i (site_id site) = Inr scen \<and>
     getSiteDeviceParam_answer env i 0 (site_id site) ParamType_LoadConfiguration = Inr dp \<and>
     data dp = Some d \<and>
     s' = s\<lparr>trace := trace s @
            site_events cfg site (json_payload (data scen)) (json_payload (param_data d))\<rparr>"
  using assms unfolding site_body_def
  apply (elim bind_InrE)
  apply (drule api_scenInfo_Inr api_getSiteDeviceParam_Inr publisher_publish_Inr data_param_data_Inr)+
  apply (auto simp: site_events_def return_apply)
  done

lemma published_topics_append:
  "published_topics (xs @ ys) = published_topics xs @ published_topics ys"
  by (induction xs rule: published_topics.induct) simp_all

lemma published_topics_site_events:
  "published_topics (site_events cfg site p1 p2) = site_topics (mqttTopic cfg) site"
  by (simp add: site_events_def site_topics_def)

lemma sites_loop_success:
  assumes "sites_loop cfg env i sites s = (Inr (), s')"
  shows "\<exists>es. trace s' = trace s @ es \<and>
           published_topics es = concat (map (site_topics (mqttTopic cfg)) sites)"
  using assms
proof (induction sites arbitrary: i s)
  case Nil
  then show ?case by (simp add: return_apply)
next
  case (Cons site rest)
  from Cons.prems obtain s1 where
    body: "site_body cfg env i site s = (Inr (), s1)" and
    rest: "sites_loop cfg env (Suc i) rest s1 = (Inr (), s')"
    by (auto elim: bind_InrE)
  from site_body_success [OF body] obtain p1 p2 where
    s1: "trace s1 = trace s @ site_events cfg site p1 p2"
    by auto
  from Cons.IH [OF rest] obtain es where
    es: "trace s' = trace s1 @ es"
      "published_topics es = concat (map (site_topics (mqttTopic cfg)) rest)"
    by blast
  from s1 es have "trace s' = trace s @ (site_events cfg site p1 p2 @ es)"
    and "published_topics (site_events cfg site p1 p2 @ es) =
      concat (map (site_topics (mqttTopic cfg)) (site # rest))"
    by (simp_all add: published_topics_append published_topics_site_events)
  then show ?case by blast
qed

lemma api_withLogin_Inr:
  assumes "api_withLogin env c s = (Inr x, s1)"
  shows "withLogin_answer env c = None \<and> s1 = s\<lparr>trace := trace s @ [WithLogin c]\<rparr>"
  using assms
  by (cases "withLogin_answer env c") (auto simp: api_withLogin_def bind_emit prog_laws)

lemma api_siteHomepage_Inr:
  assumes "api_siteHomepage env s = (Inr x, s1)"
  shows "siteHomepage_answer env = Inr x \<and> s1 = s\<lparr>trace := trace s @ [SiteHomepage]\<rparr>"
  using assms by (auto simp: api_siteHomepage_def bind_emit answer_apply)

lemma publishAll_success:
  assumes "publishAll cfg env c s = (Inr (), s')"
  shows "\<exists>r es. siteHomepage_answer env = Inr r \<and> trace s' = trace s @ es \<and>
           published_topics es = cycle_topics (mqttTopic cfg) (site_list_or_empty r)"
proof -
  from assms obtain r s1 s2 s3 s4 where
    1: "api_withLogin env c s = (Inr (), s1)" and
    2: "api_siteHomepage env s1 = (Inr r, s2)" and
    3: "publisher_publish env 0 (mqttTopic cfg @ ''/site_homepage'')
          (homepage_payload (data r)) s2 = (Inr (), s3)" and
    4: "sites_loop cfg env 0 (site_list_or_empty r) s3 = (Inr (), s4)" and
    5: "logger_log ''Published.'' s4 = (Inr (), s')"
    unfolding publishAll_def by (elim bind_InrE) auto
  from sites_loop_success [OF 4] obtain es where
    es: "trace s4 = trace s3 @ es"
      "published_topics es = concat (map (site_topics (mqttTopic cfg)) (site_list_or_empty r))"
    by blast
  let ?es = "[WithLogin c, SiteHomepage,
      Publish (mqttTopic cfg @ ''/site_homepage'') (homepage_payload (data r))] @ es @
      [Log ''Published.'']"
  from api_withLogin_Inr [OF 1] api_siteHomepage_Inr [OF 2] publisher_publish_Inr [OF 3] es(1) 5
  have "trace s' = trace s @ ?es"
    by (auto simp: logger_log_def emit_apply)
  moreover from es(2) have "published_topics ?es = cycle_topics (mqttTopic cfg) (site_list_or_empty r)"
    by (simp add: published_topics_append cycle_topics_def)
  moreover from api_siteHomepage_Inr [OF 2] have "siteHomepage_answer env = Inr r" by simp
  ultimately show ?thesis by blast
qed

section \<open>Sample cycle and quiet events\<close>

lemma credential_events_publish_nothing:
  assumes "list_all credential_event es"
  shows "published_topics es = [] \<and> Log ''Published.'' \<notin> set es"
  using assms
proof (induction es)
  case Nil
  then show ?case by simp
next
  case (Cons ev es)
  then show ?case by (cases ev) simp_all
qed

lemma ex_cycle_trace:
  "fetchAndPublish ex_cfg ex_env ex_empty =
    (Inr (),
     \<lparr>trace =
        [Log ''Fetching data'', Retrieve, Login, Store ex_cred, WithLogin ex_cred, SiteHomepage,
         Publish ''anker/site_homepage''
           (Homepage \<lparr>site_list = Some [ex_home], homepage_rest = ''{}''\<rparr>),
         ScenInfo ''s1'', Publish ''anker/site/Home/scenInfo'' (Json ''scen''),
         GetSiteDeviceParam ''s1'' ''4'', Publish ''anker/site/Home/schedule'' (Json ''ranges''),
         GetSiteDeviceParam ''s1'' ''3'', GetSiteDeviceParam ''s1'' ''2'',
         GetSiteDeviceParam ''s1'' ''1'', GetSiteDeviceParam ''s1'' ''6'',
         GetSiteDeviceParam ''s1'' ''6'', Log ''Published.''],
      loginStore = Some ex_cred\<rparr>)"
  by (simp add: fetchAndPublish_def obtainLogin_def publishAll_def site_body_def call_defs
      prog_defs site_list_or_empty_def ParamType_LoadConfiguration_def isLoginValid_def
      new_Date_def ex_defs)

section \<open>The diagnostic retrievals\<close>

lemma replace_diagnostics_fields:
  "clock (replace_diagnostics other env) = clock env"
  "login_answer (replace_diagnostics other env) = login_answer env"
  "withLogin_answer (replace_diagnostics other env) = withLogin_answer env"
  "siteHomepage_answer (replace_diagnostics other env) = siteHomepage_answer env"
  "scenInfo_answer (replace_diagnostics other env) = scenInfo_answer env"
  "publish_answer (replace_diagnostics other env) = publish_answer env"
  "store_answer (replace_diagnostics other env) = store_answer env"
  "getSiteDeviceParam_answer (replace_diagnostics other env) i 0 sid pt =
     getSiteDeviceParam_answer env i 0 sid pt"
  by (simp_all add: replace_diagnostics_def)

lemma schedule_call_same:
  "api_getSiteDeviceParam (replace_diagnostics other env) i 0 sid pt =
   api_getSiteDeviceParam env i 0 sid pt"
  by (simp add: api_getSiteDeviceParam_def replace_diagnostics_fields)

lemma diagnostic_call_same:
  assumes "0 < j"
  shows "bind (api_getSiteDeviceParam (replace_diagnostics other env) i j sid pt) (\<lambda>_. k) =
         bind (api_getSiteDeviceParam env i j sid pt) (\<lambda>_. k)"
proof
  fix s
  show "bind (api_getSiteDeviceParam (replace_diagnostics other env) i j sid pt) (\<lambda>_. k) s =
        bind (api_getSiteDeviceParam env i j sid pt) (\<lambda>_. k) s"
    using assms
    by (cases "getSiteDeviceParam_answer env i j sid pt")
       (simp_all add: api_getSiteDeviceParam_def replace_diagnostics_def bind_assoc bind_emit
          bind_answer)
qed

lemma site_body_replace_diagnostics:
  "site_body cfg (replace_diagnostics other env) i site = site_body cfg env i site"
  unfolding site_body_def
  by (simp add: api_scenInfo_def publisher_publish_def replace_diagnostics_fields
      schedule_call_same diagnostic_call_same)

lemma sites_loop_replace_diagnostics:
  "sites_loop cfg (replace_diagnostics other env) i sites = sites_loop cfg env i sites"
  by (induction sites arbitrary: i) (simp_all add: site_body_replace_diagnostics)

lemma publishAll_replace_diagnostics:
  "publishAll cfg (replace_diagnostics other env) = publishAll cfg env"
  unfolding publishAll_def fun_eq_iff
  by (simp add: api_withLogin_def api_siteHomepage_def publisher_publish_def
      replace_diagnostics_fields sites_loop_replace_diagnostics)

lemma obtainLogin_replace_diagnostics:
  "obtainLogin (replace_diagnostics other env) = obtainLogin env"
  unfolding obtainLogin_def
  by (simp add: api_login_def persistence_store_def replace_diagnostics_fields
      cong: if_cong option.case_cong)

section \<open>Failures in the loop over the sites\<close>

lemma sites_loop_append_Inr:
  assumes "sites_loop cfg env i xs s = (Inr (), s1)"
  shows "sites_loop cfg env i (xs @ ys) s = sites_loop cfg env (i + length xs) ys s1"
  using assms
proof (induction xs arbitrary: i s)
  case Nil
  then show ?case by (simp add: return_apply)
next
  case (Cons x xs)
  from Cons.prems obtain s' where
    body: "site_body cfg env i x s = (Inr (), s')" and
    rest: "sites_loop cfg env (Suc i) xs s' = (Inr (), s1)"
    by (auto elim: bind_InrE)
  from Cons.IH [OF rest] body show ?case
    by (simp add: bind_apply_Inr)
qed

lemmas cycle_defs = fetchAndPublish_def obtainLogin_def publishAll_def site_body_def
  call_defs prog_defs site_list_or_empty_def ParamType_LoadConfiguration_def
  isLoginValid_def new_Date_def

section \<open>The turn of the loop\<close>

lemma no_sleep_intros: "cycle_event ev \<Longrightarrow> no_sleep ev"
  by (cases ev) simp_all

lemma sleeps_append: "sleeps (xs @ ys) = sleeps xs @ sleeps ys"
  by (induction xs rule: sleeps.induct) simp_all

lemma no_sleep_sleeps: "list_all no_sleep es \<Longrightarrow> sleeps es = []"
proof (induction es)
  case Nil
  then show ?case by simp
next
  case (Cons ev es)
  then show ?case by (cases ev) simp_all
qed

text \<open>The guarded cycle of a turn never throws; it writes no sleep.\<close>

lemma guarded_cycle:
  "\<exists>s' es. try_catch (fetchAndPublish cfg env)
       (\<lambda>e. logger_warn ''Failed fetching or publishing printer data'' e) s = (Inr (), s') \<and>
     trace s' = trace s @ es \<and> list_all no_sleep es \<and>
     (\<forall>e. fst (fetchAndPublish cfg env s) = Inl e \<longrightarrow>
        LogWarn ''Failed fetching or publishing printer data'' e \<in> set es)"
proof -
  obtain r s1 where run: "fetchAndPublish cfg env s = (r, s1)"
    by (cases "fetchAndPublish cfg env s")
  from emits_fetchAndPublish [of cfg env] run obtain es where
    es: "trace s1 = trace s @ es" "list_all cycle_event es"
    unfolding emits_def by (metis snd_conv)
  from es(2) have quiet: "list_all no_sleep es"
    by (auto simp: list_all_iff intro: no_sleep_intros)
  show ?thesis
  proof (cases r)
    case (Inr u)
    with run es(1) quiet show ?thesis
      by (simp add: try_catch_def)
  next
    case (Inl e)
    let ?w = "LogWarn ''Failed fetching or publishing printer data'' e"
    from run Inl have "try_catch (fetchAndPublish cfg env)
       (\<lambda>e. logger_warn ''Failed fetching or publishing printer data'' e) s =
       (Inr (), s1\<lparr>trace := trace s1 @ [?w]\<rparr>)"
      by (simp add: try_catch_def logger_warn_def emit_apply)
    moreover from es(1) have "trace (s1\<lparr>trace := trace s1 @ [?w]\<rparr>) = trace s @ (es @ [?w])"
      by simp
    moreover from quiet have "list_all no_sleep (es @ [?w])"
      by simp
    moreover from run Inl have "\<forall>e'. fst (fetchAndPublish cfg env s) = Inl e' \<longrightarrow>
        LogWarn ''Failed fetching or publishing printer data'' e' \<in> set (es @ [?w])"
      by simp
    ultimately show ?thesis by blast
  qed
qed

lemma iteration_trace:
  "\<exists>s' es. iteration cfg ie s = (Inr (), s') \<and>
     trace s' = trace s @ es @
       [Log (''Sleeping for '' @
          show_int (pollInterval cfg * 1000 - (end_time ie - start_time ie)) @ ''ms...''),
        Sleep (pollInterval cfg * 1000 - (end_time ie - start_time ie))] \<and>
     list_all no_sleep es \<and>
     (\<forall>e. fst (fetchAndPublish cfg (cycle_env ie) s) = Inl e \<longrightarrow>
        LogWarn ''Failed fetching or publishing printer data'' e \<in> set es)"
proof -
  from guarded_cycle [of cfg "cycle_env ie" s] obtain s1 es where
    g: "try_catch (fetchAndPublish cfg (cycle_env ie))
       (\<lambda>e. logger_warn ''Failed fetching or publishing printer data'' e) s = (Inr (), s1)"
      "trace s1 = trace s @ es" "list_all no_sleep es"
      "\<forall>e. fst (fetchAndPublish cfg (cycle_env ie) s) = Inl e \<longrightarrow>
        LogWarn ''Failed fetching or publishing printer data'' e \<in> set es"
    by blast
  let ?d = "pollInterval cfg * 1000 - (end_time ie - start_time ie)"
  let ?s' = "s1\<lparr>trace := trace s1 @ [Log (''Sleeping for '' @ show_int ?d @ ''ms...''), Sleep ?d]\<rparr>"
  from g(1) have "iteration cfg ie s = (Inr (), ?s')"
    by (simp add: iteration_def Let_def bind_apply_Inr logger_log_def sleep_def bind_emit emit_apply)
  with g(2-4) show ?thesis by auto
qed

section \<open>The loop of the scheduler\<close>

lemma run_loop_step:
  "run_loop cfg envs i (Suc n) s = run_loop cfg envs (Suc i) n (snd (iteration cfg (envs i) s))"
proof -
  from iteration_trace [of cfg "envs i" s] obtain s' where
    "iteration cfg (envs i) s = (Inr (), s')"
    by blast
  then show ?thesis by simp
qed

lemma run_loop_running: "fst (run_loop cfg envs i n s) = None"
proof (induction n arbitrary: i s)
  case 0
  then show ?case by simp
next
  case (Suc n)
  then show ?case by (simp only: run_loop_step)
qed

lemma run_loop_add:
  "run_loop cfg envs i (a + b) s = run_loop cfg envs (i + a) b (snd (run_loop cfg envs i a s))"
proof (induction a arbitrary: i s)
  case 0
  then show ?case by simp
next
  case (Suc a)
  have "run_loop cfg envs i (Suc a + b) s =
      run_loop cfg envs (Suc i) (a + b) (snd (iteration cfg (envs i) s))"
    by (simp only: add_Suc run_loop_step)
  also have "\<dots> = run_loop cfg envs (Suc i + a) b
      (snd (run_loop cfg envs (Suc i) a (snd (iteration cfg (envs i) s))))"
    by (rule Suc.IH)
  also have "\<dots> = run_loop cfg envs (i + Suc a) b (snd (run_loop cfg envs i (Suc a) s))"
    by (simp only: run_loop_step add_Suc_right add_Suc)
  finally show ?case .
qed

lemma run_loop_trace:
  "\<exists>es. trace (snd (run_loop cfg envs i n s)) = trace s @ es \<and> length (sleeps es) = n"
proof (induction n arbitrary: i s)
  case 0
  then show ?case by simp
next
  case (Suc n)
  let ?d = "pollInterval cfg * 1000 - (end_time (envs i) - start_time (envs i))"
  from iteration_trace [of cfg "envs i" s] obtain s' es where
    it: "iteration cfg (envs i) s = (Inr (), s')"
      "trace s' = trace s @ es @ [Log (''Sleeping for '' @ show_int ?d @ ''ms...''), Sleep ?d]"
      "list_all no_sleep es"
    by blast
  from Suc.IH [of "Suc i" s'] obtain es' where
    es': "trace (snd (run_loop cfg envs (Suc i) n s')) = trace s' @ es'" "length (sleeps es') = n"
    by blast
  let ?all = "es @ [Log (''Sleeping for '' @ show_int ?d @ ''ms...''), Sleep ?d] @ es'"
  from it es' have "trace (snd (run_loop cfg envs i (Suc n) s)) = trace s @ ?all"
    by simp
  moreover from it(3) es'(2) have "length (sleeps ?all) = Suc n"
    by (simp add: sleeps_append no_sleep_sleeps)
  ultimately show ?case by blast
qed

lemma run_loop_warns:
  assumes "k < n"
    and "fst (fetchAndPublish cfg (cycle_env (envs (i + k))) (snd (run_loop cfg envs i k s))) = Inl e"
  shows "LogWarn ''Failed fetching or publishing printer data'' e
           \<in> set (events_of (run_loop cfg envs i n) s)"
proof -
  let ?w = "LogWarn ''Failed fetching or publishing printer data'' e"
  let ?sk = "snd (run_loop cfg envs i k s)"
  from assms(1) obtain m where n: "n = k + Suc m"
    by (metis add_Suc_right less_imp_Suc_add)
  from run_loop_trace [of cfg envs i k s] obtain es0 where
    es0: "trace ?sk = trace s @ es0"
    by blast
  from iteration_trace [of cfg "envs (i + k)" ?sk] assms(2) obtain s' es1 tail where
    it: "iteration cfg (envs (i + k)) ?sk = (Inr (), s')"
      "trace s' = trace ?sk @ es1 @ tail" "?w \<in> set es1"
    by blast
  from run_loop_trace [of cfg envs "Suc (i + k)" m s'] obtain es2 where
    es2: "trace (snd (run_loop cfg envs (Suc (i + k)) m s')) = trace s' @ es2"
    by blast
  have "run_loop cfg envs i n s = run_loop cfg envs (i + k) (Suc m) ?sk"
    unfolding n by (rule run_loop_add)
  also have "\<dots> = run_loop cfg envs (Suc (i + k)) m s'"
    using it(1) by simp
  finally have "trace (snd (run_loop cfg envs i n s)) = trace s @ (es0 @ es1 @ tail @ es2)"
    using es0 it(2) es2 by simp
  then have "events_of (run_loop cfg envs i n) s = es0 @ es1 @ tail @ es2"
    by (rule events_of_eq)
  with it(3) show ?thesis by simp
qed

section \<open>The reference client\<close>

lemma session_siteHomepage_apply:
  "session_siteHomepage env k s = (e_siteHomepage_answer env k, s\<lparr>trace := trace s @ [SiteHomepage]\<rparr>)"
  by (simp add: session_siteHomepage_def bind_emit answer_apply)

lemma ex_e1600_init:
  "e1600_init ex_e1600_env ex_e1600 =
    (Inr (), \<lparr>trace = [Login, ConsoleLog ''LoginResponse'', WithLogin ex_cred],
       loginCredentials = Some ex_cred, apiSession = Some ex_cred\<rparr>)"
  by (simp add: e1600_init_def prog_defs ex_e1600_env_def ex_e1600_def)

text \<open>
  \<^verbatim>\<open>_init\<close> deletes the credential it holds in memory when the session cannot be
  established from it, and logs in when it holds none.
\<close>

lemma e1600_init_rejected:
  assumes "loginCredentials st = Some c" and "apiSession st = None"
    and "e_withLogin_answer env c = Some e"
  shows "e1600_init env st =
    (Inl (Error ''Login failed''),
     st\<lparr>trace := trace st @ [WithLogin c, ConsoleError e], loginCredentials := None\<rparr>)"
  using assms by (simp add: e1600_init_def prog_defs)

lemma e1600_init_logs_in:
  assumes "loginCredentials st = None"
  shows "\<exists>es. trace (snd (e1600_init env st)) = trace st @ Login # es"
proof (cases "e_login_answer env")
  case (Inl e)
  with assms have "trace (snd (e1600_init env st)) = trace st @ Login # []"
    by (simp add: e1600_init_def prog_defs)
  then show ?thesis by blast
next
  case (Inr r)
  show ?thesis
  proof (cases "code r = 100053")
    case True
    with assms Inr have "trace (snd (e1600_init env st)) =
        trace st @ Login # [ConsoleLog ''LoginResponse'']"
      by (simp add: e1600_init_def prog_defs)
    then show ?thesis by blast
  next
    case False
    show ?thesis
    proof (cases "data r")
      case None
      with assms Inr False have "trace (snd (e1600_init env st)) =
          trace st @ Login # [ConsoleLog ''LoginResponse'']"
        by (simp add: e1600_init_def prog_defs)
      then show ?thesis by blast
    next
      case (Some c)
      show ?thesis
      proof (cases "apiSession st")
        case (Some a)
        with assms Inr False \<open>data r = Some c\<close> have "trace (snd (e1600_init env st)) =
            trace st @ Login # [ConsoleLog ''LoginResponse'']"
          by (simp add: e1600_init_def prog_defs)
        then show ?thesis by blast
      next
        case None
        show ?thesis
        proof (cases "e_withLogin_answer env c")
          case None
          with assms Inr False \<open>data r = Some c\<close> \<open>apiSession st = None\<close>
          have "trace (snd (e1600_init env st)) =
              trace st @ Login # [ConsoleLog ''LoginResponse'', WithLogin c]"
            by (simp add: e1600_init_def prog_defs)
          then show ?thesis by blast
        next
          case (Some e)
          with assms Inr False \<open>data r = Some c\<close> \<open>apiSession st = None\<close>
          have "trace (snd (e1600_init env st)) =
              trace st @ Login # [ConsoleLog ''LoginResponse'', WithLogin c, ConsoleError e]"
            by (simp add: e1600_init_def prog_defs)
          then show ?thesis by blast
        qed
      qed
    qed
  qed
qed

text \<open>The attempts of \<^verbatim>\<open>getSitehomepage\<close>, once the session stands.\<close>

lemma getSitehomepage_attempts:
  assumes "e1600_init env st = (Inr (), sa)"
  shows
   "(e_siteHomepage_answer env 0 = Inr (Some r) \<longrightarrow>
       getSitehomepage env st = (Inr (data r), sa\<lparr>trace := trace sa @ [SiteHomepage]\<rparr>)) \<and>
    (e_siteHomepage_answer env 0 = Inr None \<and> e_siteHomepage_answer env 1 = Inr (Some r) \<longrightarrow>
       getSitehomepage env st =
         (Inr (data r), sa\<lparr>trace := trace sa @ [SiteHomepage, SetTimeout 1000, SiteHomepage]\<rparr>)) \<and>
    (e_siteHomepage_answer env 0 = Inr None \<and> e_siteHomepage_answer env 1 = Inr None \<longrightarrow>
       getSitehomepage env st =
         (Inl (Error ''Unable to retrieve Sitehomepage''),
          sa\<lparr>trace := trace sa @ [SiteHomepage, SetTimeout 1000, SiteHomepage]\<rparr>)) \<and>
    (e_siteHomepage_answer env 0 = Inl e \<longrightarrow>
       getSitehomepage env st = (Inl e, sa\<lparr>trace := trace sa @ [SiteHomepage]\<rparr>)) \<and>
    (e_siteHomepage_answer env 0 = Inr None \<and> e_siteHomepage_answer env 1 = Inl e \<longrightarrow>
       getSitehomepage env st =
         (Inl e, sa\<lparr>trace := trace sa @ [SiteHomepage, SetTimeout 1000, SiteHomepage]\<rparr>))"
proof -
  have start: "getSitehomepage env st =
      bind (session_siteHomepage env 0) (\<lambda>sites.
        case sites of
          Some r \<Rightarrow> return (data r)
        | None \<Rightarrow>
            bind (emit (SetTimeout 1000)) (\<lambda>_.
            bind (session_siteHomepage env 1) (\<lambda>sites'.
            case sites' of
              None \<Rightarrow> throw (Error ''Unable to retrieve Sitehomepage'')
            | Some r \<Rightarrow> return (data r)))) sa"
    unfolding getSitehomepage_def using assms by (rule bind_apply_Inr)
  show ?thesis
    unfolding start
    by (simp add: bind_def session_siteHomepage_apply emit_apply return_apply throw_apply)
qed

section \<open>The overview call of a cycle\<close>

lemma no_overview_count:
  assumes "list_all no_overview es"
  shows "count_list es SiteHomepage = 0 \<and> (\<forall>d. SetTimeout d \<notin> set es)"
  using assms
proof (induction es)
  case Nil
  then show ?case by simp
next
  case (Cons ev es)
  then show ?case by (cases ev) simp_all
qed

lemma site_event_no_overview: "site_event ev \<Longrightarrow> no_overview ev"
  by (cases ev) simp_all

lemma credential_event_no_overview: "credential_event ev \<Longrightarrow> no_overview ev"
  by (cases ev) simp_all

text \<open>What follows the overview call in a cycle.\<close>

lemma emits_after_overview:
  "emits no_overview
     (bind (publisher_publish env 0 topic p) (\<lambda>_.
      bind (sites_loop cfg env 0 sites) (\<lambda>_. logger_log ''Published.'')))"
  unfolding publisher_publish_def logger_log_def
  by (intro emits_rules emits_emit emits_mono [OF emits_sites_loop site_event_no_overview])
     simp_all

lemma publishAll_overview_calls:
  "\<exists>es. trace (snd (publishAll cfg env c s)) = trace s @ WithLogin c # es \<and>
     count_list es SiteHomepage = (if withLogin_answer env c = None then 1 else 0) \<and>
     (\<forall>d. SetTimeout d \<notin> set es)"
proof (cases "withLogin_answer env c")
  case (Some e)
  then have "trace (snd (publishAll cfg env c s)) = trace s @ WithLogin c # []"
    by (simp add: publishAll_def api_withLogin_def bind_assoc bind_emit raise_if_simps
        bind_throw throw_apply)
  with Some show ?thesis by auto
next
  case None
  let ?s1 = "s\<lparr>trace := trace s @ [WithLogin c, SiteHomepage]\<rparr>"
  show ?thesis
  proof (cases "siteHomepage_answer env")
    case (Inl e)
    with None have "trace (snd (publishAll cfg env c s)) = trace s @ WithLogin c # [SiteHomepage]"
      by (simp add: publishAll_def api_withLogin_def api_siteHomepage_def bind_assoc bind_emit
          raise_if_simps bind_return bind_answer)
    with None show ?thesis by auto
  next
    case (Inr r)
    let ?rest = "bind (publisher_publish env 0 (mqttTopic cfg @ ''/site_homepage'')
          (homepage_payload (data r))) (\<lambda>_.
        bind (sites_loop cfg env 0 (site_list_or_empty r)) (\<lambda>_. logger_log ''Published.''))"
    from None Inr have run: "publishAll cfg env c s = ?rest ?s1"
      by (simp add: publishAll_def api_withLogin_def api_siteHomepage_def bind_assoc bind_emit
          raise_if_simps bind_return bind_answer)
    from emits_after_overview [of env "mqttTopic cfg @ ''/site_homepage''"
        "homepage_payload (data r)" cfg "site_list_or_empty r"]
    obtain es where es: "trace (snd (?rest ?s1)) = trace ?s1 @ es" "list_all no_overview es"
      unfolding emits_def by blast
    from run es(1) have "trace (snd (publishAll cfg env c s)) =
        trace s @ WithLogin c # (SiteHomepage # es)"
      by simp
    moreover from no_overview_count [OF es(2)] None
    have "count_list (SiteHomepage # es) SiteHomepage = (if withLogin_answer env c = None then 1 else 0)"
      and "\<forall>d. SetTimeout d \<notin> set (SiteHomepage # es)"
      by simp_all
    ultimately show ?thesis by blast
  qed
qed

lemma cycle_overview_calls:
  "count_list (events_of (fetchAndPublish cfg env) s) SiteHomepage \<le> 1 \<and>
   (\<forall>d. SetTimeout d \<notin> set (events_of (fetchAndPublish cfg env) s)) \<and>
   (\<forall>c sc. obtainLogin env (s\<lparr>trace := trace s @ [Log ''Fetching data'']\<rparr>) = (Inr (Some c), sc) \<and>
      withLogin_answer env c = None \<longrightarrow>
      count_list (events_of (fetchAndPublish cfg env) s) SiteHomepage = 1)"
proof -
  let ?s0 = "s\<lparr>trace := trace s @ [Log ''Fetching data'']\<rparr>"
  obtain res s1 where ob: "obtainLogin env ?s0 = (res, s1)"
    by (cases "obtainLogin env ?s0")
  from emits_obtainLogin [of env] ob obtain pre where
    pre: "trace s1 = trace ?s0 @ pre" "list_all credential_event pre"
    unfolding emits_def by (metis snd_conv)
  from pre(2) have "list_all no_overview pre"
    by (auto simp: list_all_iff intro: credential_event_no_overview)
  note quiet = no_overview_count [OF this]
  show ?thesis
  proof (cases res)
    case (Inl e)
    with ob pre(1) have "trace (snd (fetchAndPublish cfg env s)) = trace s @ (Log ''Fetching data'' # pre)"
      by (simp add: fetchAndPublish_stages)
    then have "events_of (fetchAndPublish cfg env) s = Log ''Fetching data'' # pre"
      by (rule events_of_eq)
    with quiet ob Inl show ?thesis by simp
  next
    case (Inr loginData)
    show ?thesis
    proof (cases loginData)
      case None
      with ob Inr pre(1) have "trace (snd (fetchAndPublish cfg env s)) =
          trace s @ (Log ''Fetching data'' # pre @ [LogError ''Not logged in''])"
        by (simp add: fetchAndPublish_stages)
      then have "events_of (fetchAndPublish cfg env) s =
          Log ''Fetching data'' # pre @ [LogError ''Not logged in'']"
        by (rule events_of_eq)
      with quiet ob Inr None show ?thesis by simp
    next
      case (Some c)
      from publishAll_overview_calls [of cfg env c s1] obtain es where
        es: "trace (snd (publishAll cfg env c s1)) = trace s1 @ WithLogin c # es"
          "count_list es SiteHomepage = (if withLogin_answer env c = None then 1 else 0)"
          "\<forall>d. SetTimeout d \<notin> set es"
        by blast
      from ob Inr Some es(1) pre(1) have "trace (snd (fetchAndPublish cfg env s)) =
          trace s @ (Log ''Fetching data'' # pre @ WithLogin c # es)"
        by (simp add: fetchAndPublish_stages)
      then have "events_of (fetchAndPublish cfg env) s = Log ''Fetching data'' # pre @ WithLogin c # es"
        by (rule events_of_eq)
      with quiet es(2,3) ob Inr Some show ?thesis by auto
    qed
  qed
qed

section \<open>The events of the sites in a completed cycle\<close>

lemma site_body_completed:
  assumes "site_body cfg env i site s = (Inr (), s')"
  shows "trace s' = trace s @ completed_site_events cfg env i site"
proof -
  from site_body_success [OF assms] obtain scen dp d where
    "scenInfo_answer env i (site_id site) = Inr scen"
    "getSiteDeviceParam_answer env i 0 (site_id site) ParamType_LoadConfiguration = Inr dp"
    "data dp = Some d"
    "s' = s\<lparr>trace := trace s @
       site_events cfg site (json_payload (data scen)) (json_payload (param_data d))\<rparr>"
    by blast
  then show ?thesis by (simp add: completed_site_events_def)
qed

lemma sites_loop_completed:
  assumes "sites_loop cfg env i sites s = (Inr (), s')"
  shows "trace s' = trace s @ all_site_events cfg env i sites"
  using assms
proof (induction sites arbitrary: i s)
  case Nil
  then show ?case by (simp add: return_apply)
next
  case (Cons site rest)
  from Cons.prems obtain s1 where
    body: "site_body cfg env i site s = (Inr (), s1)" and
    rest: "sites_loop cfg env (Suc i) rest s1 = (Inr (), s')"
    by (auto elim: bind_InrE)
  from site_body_completed [OF body] Cons.IH [OF rest] show ?case by simp
qed

lemma publishAll_completed:
  assumes "publishAll cfg env c s = (Inr (), s')"
  shows "\<exists>r. siteHomepage_answer env = Inr r \<and>
     trace s' = trace s @
       [WithLogin c, SiteHomepage,
        Publish (mqttTopic cfg @ ''/site_homepage'') (homepage_payload (data r))] @
       all_site_events cfg env 0 (site_list_or_empty r) @ [Log ''Published.'']"
proof -
  from assms obtain r s1 s2 s3 s4 where
    1: "api_withLogin env c s = (Inr (), s1)" and
    2: "api_siteHomepage env s1 = (Inr r, s2)" and
    3: "publisher_publish env 0 (mqttTopic cfg @ ''/site_homepage'')
          (homepage_payload (data r)) s2 = (Inr (), s3)" and
    4: "sites_loop cfg env 0 (site_list_or_empty r) s3 = (Inr (), s4)" and
    5: "logger_log ''Published.'' s4 = (Inr (), s')"
    unfolding publishAll_def by (elim bind_InrE) auto
  from api_withLogin_Inr [OF 1] api_siteHomepage_Inr [OF 2] publisher_publish_Inr [OF 3]
    sites_loop_completed [OF 4] 5
  have "siteHomepage_answer env = Inr r \<and>
     trace s' = trace s @
       [WithLogin c, SiteHomepage,
        Publish (mqttTopic cfg @ ''/site_homepage'') (homepage_payload (data r))] @
       all_site_events cfg env 0 (site_list_or_empty r) @ [Log ''Published.'']"
    by (auto simp: logger_log_def emit_apply)
  then show ?thesis by blast
qed

lemma cycle_completed:
  assumes "fst (fetchAndPublish cfg env s) = Inr ()"
    and "Log ''Published.'' \<in> set (events_of (fetchAndPublish cfg env) s)"
  shows "\<exists>r c pre. siteHomepage_answer env = Inr r \<and> list_all credential_event pre \<and>
     events_of (fetchAndPublish cfg env) s =
       Log ''Fetching data'' # pre @
       [WithLogin c, SiteHomepage,
        Publish (mqttTopic cfg @ ''/site_homepage'') (homepage_payload (data r))] @
       all_site_events cfg env 0 (site_list_or_empty r) @ [Log ''Published.'']"
proof -
  let ?s0 = "s\<lparr>trace := trace s @ [Log ''Fetching data'']\<rparr>"
  obtain res s1 where ob: "obtainLogin env ?s0 = (res, s1)"
    by (cases "obtainLogin env ?s0")
  from emits_obtainLogin [of env] ob obtain pre where
    pre: "trace s1 = trace ?s0 @ pre" "list_all credential_event pre"
    unfolding emits_def by (metis snd_conv)
  note quiet = credential_events_publish_nothing [OF pre(2)]
  show ?thesis
  proof (cases res)
    case (Inl e)
    with ob assms(1) show ?thesis by (simp add: fetchAndPublish_stages)
  next
    case (Inr loginData)
    show ?thesis
    proof (cases loginData)
      case None
      with ob Inr pre(1)
      have "trace (snd (fetchAndPublish cfg env s)) =
          trace s @ (Log ''Fetching data'' # pre @ [LogError ''Not logged in''])"
        by (simp add: fetchAndPublish_stages)
      then have "events_of (fetchAndPublish cfg env) s =
          Log ''Fetching data'' # pre @ [LogError ''Not logged in'']"
        by (rule events_of_eq)
      with assms(2) quiet show ?thesis by simp
    next
      case (Some c)
      with ob Inr have eq: "fetchAndPublish cfg env s = publishAll cfg env c s1"
        by (simp add: fetchAndPublish_stages)
      with assms(1) have "publishAll cfg env c s1 = (Inr (), snd (publishAll cfg env c s1))"
        by (metis prod.collapse)
      from publishAll_completed [OF this] obtain r where
        r: "siteHomepage_answer env = Inr r" and
        tr: "trace (snd (publishAll cfg env c s1)) = trace s1 @
          [WithLogin c, SiteHomepage,
           Publish (mqttTopic cfg @ ''/site_homepage'') (homepage_payload (data r))] @
          all_site_events cfg env 0 (site_list_or_empty r) @ [Log ''Published.'']"
        by blast
      from eq tr pre(1)
      have "trace (snd (fetchAndPublish cfg env s)) = trace s @
         (Log ''Fetching data'' # pre @
          [WithLogin c, SiteHomepage,
           Publish (mqttTopic cfg @ ''/site_homepage'') (homepage_payload (data r))] @
          all_site_events cfg env 0 (site_list_or_empty r) @ [Log ''Published.''])"
        by simp
      then have "events_of (fetchAndPublish cfg env) s =
          Log ''Fetching data'' # pre @
          [WithLogin c, SiteHomepage,
           Publish (mqttTopic cfg @ ''/site_homepage'') (homepage_payload (data r))] @
          all_site_events cfg env 0 (site_list_or_empty r) @ [Log ''Published.'']"
        by (rule events_of_eq)
      with r pre(2) show ?thesis by blast
    qed
  qed
qed

section \<open>A further retrieval that rejects\<close>

lemma site_body_diagnostic_part:
  assumes "scenInfo_answer env i (site_id site) = Inr scen"
    and "publish_answer env (2 * i + 1) (mqttTopic cfg @ ''/site/'' @ site_name site @ ''/scenInfo'')
      (json_payload (data scen)) = None"
    and "getSiteDeviceParam_answer env i 0 (site_id site) ParamType_LoadConfiguration = Inr dp"
    and "data dp = Some d"
    and "publish_answer env (2 * i + 2) (mqttTopic cfg @ ''/site/'' @ site_name site @ ''/schedule'')
      (json_payload (param_data d)) = None"
  shows "site_body cfg env i site s =
    bind (api_getSiteDeviceParam env i 1 (site_id site) ''3'') (\<lambda>test.
    bind (api_getSiteDeviceParam env i 2 (site_id site) ''2'') (\<lambda>test2.
    bind (api_getSiteDeviceParam env i 3 (site_id site) ''1'') (\<lambda>test1.
    bind (api_getSiteDeviceParam env i 4 (site_id site) ''6'') (\<lambda>test5.
    bind (api_getSiteDeviceParam env i 5 (site_id site) ''6'') (\<lambda>test6.
    return ())))))
      (s\<lparr>trace := trace s @ take 4 (completed_site_events cfg env i site)\<rparr>)"
  using assms
  by (simp add: site_body_def api_scenInfo_def publisher_publish_def data_param_data_def
      bind_assoc bind_emit bind_answer raise_if_simps bind_return completed_site_events_def
      site_events_def
      api_getSiteDeviceParam_def [of env i 0])

lemma diagnostic_call_rejects:
  assumes first: "scenInfo_answer env i (site_id site) = Inr scen"
    "publish_answer env (2 * i + 1) (mqttTopic cfg @ ''/site/'' @ site_name site @ ''/scenInfo'')
      (json_payload (data scen)) = None"
    "getSiteDeviceParam_answer env i 0 (site_id site) ParamType_LoadConfiguration = Inr dp"
    "data dp = Some d"
    "publish_answer env (2 * i + 2) (mqttTopic cfg @ ''/site/'' @ site_name site @ ''/schedule'')
      (json_payload (param_data d)) = None"
    and j: "1 \<le> j" "j \<le> 5"
    and earlier: "\<forall>k. 1 \<le> k \<and> k < j \<longrightarrow>
      (\<exists>x. getSiteDeviceParam_answer env i k (site_id site) (diagnostic_types ! (k - 1)) = Inr x)"
    and rejects: "getSiteDeviceParam_answer env i j (site_id site) (diagnostic_types ! (j - 1)) = Inl e"
  shows "site_body cfg env i site s =
    (Inl e, s\<lparr>trace := trace s @ take (4 + j) (completed_site_events cfg env i site)\<rparr>)"
proof -
  note start = site_body_diagnostic_part [OF first]
  from j have "j = 1 \<or> j = 2 \<or> j = 3 \<or> j = 4 \<or> j = 5" by arith
  then show ?thesis
  proof (elim disjE)
    assume "j = 1"
    with rejects show ?thesis
      by (simp add: start api_getSiteDeviceParam_def bind_assoc bind_emit bind_answer
          diagnostic_types_def completed_site_events_def site_events_def)
  next
    assume "j = 2"
    with earlier [rule_format, of 1] obtain x1 where
      "getSiteDeviceParam_answer env i 1 (site_id site) ''3'' = Inr x1"
      by (auto simp: diagnostic_types_def)
    with rejects \<open>j = 2\<close> show ?thesis
      by (simp add: start api_getSiteDeviceParam_def bind_assoc bind_emit bind_answer
          diagnostic_types_def completed_site_events_def site_events_def)
  next
    assume "j = 3"
    with earlier [rule_format, of 1] earlier [rule_format, of 2] obtain x1 x2 where
      "getSiteDeviceParam_answer env i 1 (site_id site) ''3'' = Inr x1"
      "getSiteDeviceParam_answer env i 2 (site_id site) ''2'' = Inr x2"
      by (auto simp: diagnostic_types_def)
    with rejects \<open>j = 3\<close> show ?thesis
      by (simp add: start api_getSiteDeviceParam_def bind_assoc bind_emit bind_answer
          diagnostic_types_def completed_site_events_def site_events_def)
  next
    assume "j = 4"
    with earlier [rule_format, of 1] earlier [rule_format, of 2] earlier [rule_format, of 3]
    obtain x1 x2 x3 where
      "getSiteDeviceParam_answer env i 1 (site_id site) ''3'' = Inr x1"
      "getSiteDeviceParam_answer env i 2 (site_id site) ''2'' = Inr x2"
      "getSiteDeviceParam_answer env i 3 (site_id site) ''1'' = Inr x3"
      by (auto simp: diagnostic_types_def)
    with rejects \<open>j = 4\<close> show ?thesis
      by (simp add: start api_getSiteDeviceParam_def bind_assoc bind_emit bind_answer
          diagnostic_types_def completed_site_events_def site_events_def)
  next
    assume "j = 5"
    with earlier [rule_format, of 1] earlier [rule_format, of 2] earlier [rule_format, of 3]
      earlier [rule_format, of 4]
    obtain x1 x2 x3 x4 where
      "getSiteDeviceParam_answer env i 1 (site_id site) ''3'' = Inr x1"
      "getSiteDeviceParam_answer env i 2 (site_id site) ''2'' = Inr x2"
      "getSiteDeviceParam_answer env i 3 (site_id site) ''1'' = Inr x3"
      "getSiteDeviceParam_answer env i 4 (site_id site) ''6'' = Inr x4"
      by (auto simp: diagnostic_types_def)
    with rejects \<open>j = 5\<close> show ?thesis
      by (simp add: start api_getSiteDeviceParam_def bind_assoc bind_emit bind_answer
          diagnostic_types_def completed_site_events_def site_events_def)
  qed
qed

lemma site_failure_leaves_cycle:
  assumes "obtainLogin env (s\<lparr>trace := trace s @ [Log ''Fetching data'']\<rparr>) = (Inr (Some c), sc)"
    and "withLogin_answer env c = None" and "siteHomepage_answer env = Inr r"
    and "publish_answer env 0 (mqttTopic cfg @ ''/site_homepage'') (homepage_payload (data r)) = None"
    and "site_list_or_empty r = before @ site # after"
    and "sites_loop cfg env 0 before
      (sc\<lparr>trace := trace sc @ [WithLogin c, SiteHomepage,
          Publish (mqttTopic cfg @ ''/site_homepage'') (homepage_payload (data r))]\<rparr>) = (Inr (), sa)"
    and "site_body cfg env (length before) site sa = (Inl e, sb)"
  shows "fetchAndPublish cfg env s = (Inl e, sb)"
proof -
  let ?start = "sc\<lparr>trace := trace sc @ [WithLogin c, SiteHomepage,
          Publish (mqttTopic cfg @ ''/site_homepage'') (homepage_payload (data r))]\<rparr>"
  from assms(6) have "sites_loop cfg env 0 (before @ site # after) ?start =
      sites_loop cfg env (0 + length before) (site # after) sa"
    by (rule sites_loop_append_Inr)
  with assms(7) have "sites_loop cfg env 0 (site_list_or_empty r) ?start = (Inl e, sb)"
    by (simp add: assms(5) bind_apply_Inl)
  with assms(1-4) show ?thesis
    by (simp add: fetchAndPublish_stages publishAll_def api_withLogin_def api_siteHomepage_def
        publisher_publish_def bind_assoc bind_emit bind_answer raise_if_simps bind_return
        bind_apply_Inl)
qed

section \<open>Sample cycles over two sites\<close>

lemma ex_two_sites_run:
  "fetchAndPublish ex_cfg ex_env_two_sites ex_cached =
    (Inr (),
     \<lparr>trace =
        [Log ''Fetching data'', Retrieve, Log ''Using cached auth data'', WithLogin ex_cred,
         SiteHomepage,
         Publish ''anker/site_homepage''
           (Homepage \<lparr>site_list = Some [ex_home, ex_cabin], homepage_rest = ''{}''\<rparr>),
         ScenInfo ''s1'', Publish ''anker/site/Home/scenInfo'' (Json ''scen''),
         GetSiteDeviceParam ''s1'' ''4'', Publish ''anker/site/Home/schedule'' (Json ''ranges''),
         GetSiteDeviceParam ''s1'' ''3'', GetSiteDeviceParam ''s1'' ''2'',
         GetSiteDeviceParam ''s1'' ''1'', GetSiteDeviceParam ''s1'' ''6'',
         GetSiteDeviceParam ''s1'' ''6'',
         ScenInfo ''s2'', Publish ''anker/site/Cabin/scenInfo'' (Json ''scen''),
         GetSiteDeviceParam ''s2'' ''4'', Publish ''anker/site/Cabin/schedule'' (Json ''ranges''),
         GetSiteDeviceParam ''s2'' ''3'', GetSiteDeviceParam ''s2'' ''2'',
         GetSiteDeviceParam ''s2'' ''1'', GetSiteDeviceParam ''s2'' ''6'',
         GetSiteDeviceParam ''s2'' ''6'', Log ''Published.''],
      loginStore = Some ex_cred\<rparr>)"
  by (simp add: cycle_defs ex_defs)

lemma ex_diagnostic_fails_run:
  "fetchAndPublish ex_cfg ex_env_diagnostic_fails ex_cached =
    (Inl (Error ''timeout''),
     \<lparr>trace =
        [Log ''Fetching data'', Retrieve, Log ''Using cached auth data'', WithLogin ex_cred,
         SiteHomepage,
         Publish ''anker/site_homepage''
           (Homepage \<lparr>site_list = Some [ex_home, ex_cabin], homepage_rest = ''{}''\<rparr>),
         ScenInfo ''s1'', Publish ''anker/site/Home/scenInfo'' (Json ''scen''),
         GetSiteDeviceParam ''s1'' ''4'', Publish ''anker/site/Home/schedule'' (Json ''ranges''),
         GetSiteDeviceParam ''s1'' ''3''],
      loginStore = Some ex_cred\<rparr>)"
  by (simp add: cycle_defs ex_defs)

section \<open>A session that cannot be established\<close>

text \<open>
  C1, as the code has it.  When the cycle has a credential and establishing the session
  from it fails, the exception ends the cycle, and the credential file is not cleared: it
  still holds that credential.  A later cycle that finds the file as this cycle left it
  calls \<^verbatim>\<open>login()\<close> exactly when the credential is no longer valid at that time;
  while it is valid, the cycle uses it again without a login.  The sample run shows the
  claim as stated to fail: the credential is valid and rejected, the file keeps it, and
  the next cycle tries the same credential without calling \<^verbatim>\<open>login()\<close>.
\<close>

theorem failed_session_keeps_credential:
  assumes "obtainLogin env (s\<lparr>trace := trace s @ [Log ''Fetching data'']\<rparr>) = (Inr (Some c), sa)"
    and "withLogin_answer env c = Some e"
  shows "fetchAndPublish cfg env s = (Inl e, sa\<lparr>trace := trace sa @ [WithLogin c]\<rparr>) \<and>
    loginStore (snd (fetchAndPublish cfg env s)) = Some c \<and>
    (\<forall>env' s'. loginStore s' = loginStore (snd (fetchAndPublish cfg env s)) \<longrightarrow>
       count_list (events_of (fetchAndPublish cfg env') s') Login =
         (if isLoginValid c (Date (clock env')) then 0 else 1))"
proof -
  from assms have run: "fetchAndPublish cfg env s = (Inl e, sa\<lparr>trace := trace sa @ [WithLogin c]\<rparr>)"
    by (simp add: fetchAndPublish_stages publishAll_def api_withLogin_def bind_assoc bind_emit
        raise_if_simps bind_throw throw_apply)
  from obtainLogin_store [OF assms(1)] run
  have store: "loginStore (snd (fetchAndPublish cfg env s)) = Some c"
    by simp
  from run store show ?thesis
    by (simp add: cycle_login_calls)
qed

theorem failed_session_keeps_credential_counterexample:
  "fetchAndPublish ex_cfg ex_env_rejected ex_cached =
     (Inl (Error ''rejected''),
      \<lparr>trace = [Log ''Fetching data'', Retrieve, Log ''Using cached auth data'', WithLogin ex_cred],
       loginStore = Some ex_cred\<rparr>) \<and>
   fetchAndPublish ex_cfg ex_env_rejected
     \<lparr>trace = [Log ''Fetching data'', Retrieve, Log ''Using cached auth data'', WithLogin ex_cred],
      loginStore = Some ex_cred\<rparr> =
     (Inl (Error ''rejected''),
      \<lparr>trace = [Log ''Fetching data'', Retrieve, Log ''Using cached auth data'', WithLogin ex_cred,
         Log ''Fetching data'', Retrieve, Log ''Using cached auth data'', WithLogin ex_cred],
       loginStore = Some ex_cred\<rparr>)"
  by (simp add: cycle_defs ex_defs)

theorem failed_session_keeps_credential_witness:
  "fetchAndPublish ex_cfg ex_env_rejected ex_cached =
     (Inl (Error ''rejected''),
      \<lparr>trace = [Log ''Fetching data'', Retrieve, Log ''Using cached auth data'', WithLogin ex_cred],
       loginStore = Some ex_cred\<rparr>) \<and>
   count_list (events_of (fetchAndPublish ex_cfg ex_env) ex_cached) Login = 0 \<and>
   count_list (events_of (fetchAndPublish ex_cfg (ex_env\<lparr>clock := 1700003600000\<rparr>)) ex_cached)
     Login = 1"
proof -
  let ?s0 = "ex_cached\<lparr>trace := trace ex_cached @ [Log ''Fetching data'']\<rparr>"
  let ?sa = "?s0\<lparr>trace := trace ?s0 @ [Retrieve, Log ''Using cached auth data'']\<rparr>"
  have "loginStore ?s0 = Some ex_cred" and "isLoginValid ex_cred (Date (clock ex_env_rejected))"
    by (simp_all add: ex_defs isLoginValid_def new_Date_def)
  then have 1: "obtainLogin ex_env_rejected ?s0 = (Inr (Some ex_cred), ?sa)"
    by (rule obtainLogin_cached)
  have 2: "withLogin_answer ex_env_rejected ex_cred = Some (Error ''rejected'')"
    by (simp add: ex_defs)
  note inst = failed_session_keeps_credential [OF 1 2, of ex_cfg]
  from inst have a: "fetchAndPublish ex_cfg ex_env_rejected ex_cached =
     (Inl (Error ''rejected''),
      \<lparr>trace = [Log ''Fetching data'', Retrieve, Log ''Using cached auth data'', WithLogin ex_cred],
       loginStore = Some ex_cred\<rparr>)"
    by (simp add: ex_cached_def)
  from inst have same: "loginStore ex_cached = loginStore (snd (fetchAndPublish ex_cfg ex_env_rejected ex_cached))"
    by (simp add: ex_cached_def)
  have v: "isLoginValid ex_cred (Date (clock ex_env))"
    and nv: "\<not> isLoginValid ex_cred (Date (clock (ex_env\<lparr>clock := 1700003600000\<rparr>)))"
    by (simp_all add: ex_defs isLoginValid_def new_Date_def)
  from inst same v have b: "count_list (events_of (fetchAndPublish ex_cfg ex_env) ex_cached) Login = 0"
    by (metis (full_types))
  from inst same nv
  have c: "count_list (events_of (fetchAndPublish ex_cfg (ex_env\<lparr>clock := 1700003600000\<rparr>)) ex_cached)
     Login = 1"
    by (metis (full_types))
  from a b c show ?thesis by simp
qed

section \<open>Login and store calls of a cycle\<close>

text \<open>
  C2.  A cycle whose cache returns a credential that is usable at that moment does not call
  \<^verbatim>\<open>login()\<close>.  A cycle whose cache returns none, or a credential that is not
  usable, calls \<^verbatim>\<open>login()\<close> exactly once; when the login answers with a credential,
  \<^verbatim>\<open>store()\<close> is called exactly once within the cycle, with that credential.
\<close>

theorem cycle_login_and_store:
  "(loginStore s = Some c \<and> isLoginValid c (Date (clock env)) \<longrightarrow>
      count_list (events_of (fetchAndPublish cfg env) s) Login = 0) \<and>
   (loginStore s = None \<or> (loginStore s = Some c \<and> \<not> isLoginValid c (Date (clock env))) \<longrightarrow>
      count_list (events_of (fetchAndPublish cfg env) s) Login = 1 \<and>
      (\<forall>r fresh. login_answer env = Inr r \<and> data r = Some fresh \<longrightarrow>
         stored (events_of (fetchAndPublish cfg env) s) = [fresh]))"
proof (intro conjI impI allI)
  assume "loginStore s = Some c \<and> isLoginValid c (Date (clock env))"
  then show "count_list (events_of (fetchAndPublish cfg env) s) Login = 0"
    by (simp add: cycle_login_calls)
next
  assume a: "loginStore s = None \<or> (loginStore s = Some c \<and> \<not> isLoginValid c (Date (clock env)))"
  then show "count_list (events_of (fetchAndPublish cfg env) s) Login = 1"
    by (auto simp: cycle_login_calls)
  fix r fresh
  assume "login_answer env = Inr r \<and> data r = Some fresh"
  with cycle_events_login [OF a, of cfg]
  show "stored (events_of (fetchAndPublish cfg env) s) = [fresh]"
    by auto
qed

theorem cycle_login_and_store_witness:
  "count_list (events_of (fetchAndPublish ex_cfg ex_env) ex_cached) Login = 0 \<and>
   count_list (events_of (fetchAndPublish ex_cfg ex_env) ex_empty) Login = 1 \<and>
   stored (events_of (fetchAndPublish ex_cfg ex_env) ex_empty) = [ex_cred]"
proof -
  have valid: "isLoginValid ex_cred (Date (clock ex_env))"
    by (simp add: isLoginValid_def new_Date_def ex_defs)
  have cached: "loginStore ex_cached = Some ex_cred" and empty: "loginStore ex_empty = None"
    by (simp_all add: ex_defs)
  have fresh: "login_answer ex_env = Inr \<lparr>code = 0, msg = ''success!'', data = Some ex_cred\<rparr>"
    by (simp add: ex_env_def)
  from cycle_login_and_store [of ex_cached ex_cred ex_env ex_cfg] valid cached
  have 1: "count_list (events_of (fetchAndPublish ex_cfg ex_env) ex_cached) Login = 0"
    by simp
  from cycle_login_and_store [of ex_empty ex_cred ex_env ex_cfg] empty fresh
  have 2: "count_list (events_of (fetchAndPublish ex_cfg ex_env) ex_empty) Login = 1"
    and 3: "stored (events_of (fetchAndPublish ex_cfg ex_env) ex_empty) = [ex_cred]"
    by simp_all
  from 1 2 3 show ?thesis by simp
qed

section \<open>A failure in a per-site operation\<close>




section \<open>The sleep of a turn\<close>

text \<open>
  C4, as the code has it.  The duration handed to the timed wait is the configured
  interval in milliseconds minus the time the turn took, as it is, with no clamp: for an
  interval of 60000 ms, a cycle of 5000 ms is followed by a sleep of 55000 ms, and a
  cycle of 65000 ms by a call of the timed wait with -5000 ms.
\<close>

theorem sleep_duration_not_clamped:
  "sleeps (events_of (iteration cfg ie) s) =
     [pollInterval cfg * 1000 - (end_time ie - start_time ie)] \<and>
   sleeps (events_of (iteration ex_cfg (ex_turn 5000 ex_env)) ex_cached) = [55000] \<and>
   sleeps (events_of (iteration ex_cfg (ex_turn 65000 ex_env)) ex_cached) = [- 5000]"
proof -
  have general: "sleeps (events_of (iteration cfg ie) s) =
     [pollInterval cfg * 1000 - (end_time ie - start_time ie)]" for cfg ie s
  proof -
    from iteration_trace [of cfg ie s] obtain s' es where
      "iteration cfg ie s = (Inr (), s')" and
      "trace s' = trace s @ es @
         [Log (''Sleeping for '' @
            show_int (pollInterval cfg * 1000 - (end_time ie - start_time ie)) @ ''ms...''),
          Sleep (pollInterval cfg * 1000 - (end_time ie - start_time ie))]" and
      "list_all no_sleep es"
      by blast
    then show ?thesis
      by (simp add: events_of_def sleeps_append no_sleep_sleeps)
  qed
  show ?thesis
    by (simp add: general) (simp add: ex_defs)
qed

theorem sleep_duration_not_clamped_counterexample:
  "pollInterval ex_cfg * 1000 = 60000 \<and>
   end_time (ex_turn 65000 ex_env) - start_time (ex_turn 65000 ex_env) = 65000 \<and>
   snd (iteration ex_cfg (ex_turn 65000 ex_env) ex_cached) =
     \<lparr>trace =
        [Log ''Fetching data'', Retrieve, Log ''Using cached auth data'', WithLogin ex_cred,
         SiteHomepage,
         Publish ''anker/site_homepage''
           (Homepage \<lparr>site_list = Some [ex_home], homepage_rest = ''{}''\<rparr>),
         ScenInfo ''s1'', Publish ''anker/site/Home/scenInfo'' (Json ''scen''),
         GetSiteDeviceParam ''s1'' ''4'', Publish ''anker/site/Home/schedule'' (Json ''ranges''),
         GetSiteDeviceParam ''s1'' ''3'', GetSiteDeviceParam ''s1'' ''2'',
         GetSiteDeviceParam ''s1'' ''1'', GetSiteDeviceParam ''s1'' ''6'',
         GetSiteDeviceParam ''s1'' ''6'', Log ''Published.'',
         Log ''Sleeping for -5000ms...'', Sleep (- 5000)],
      loginStore = Some ex_cred\<rparr>"
  by (simp add: iteration_def cycle_defs ex_defs show_int_def)

theorem sleep_duration_not_clamped_witness:
  "sleeps (events_of (iteration ex_cfg (ex_turn 5000 ex_env_rejected)) ex_empty) = [55000]"
  using sleep_duration_not_clamped [of ex_cfg "ex_turn 5000 ex_env_rejected" ex_empty]
  by (simp add: ex_defs)

section \<open>The order of the publishes\<close>

text \<open>
  C5.  In a cycle that returns normally and logs \<^verbatim>\<open>Published.\<close>, with topic prefix
  \<open>p\<close> and the sites of the overview answer in listing order, the publish calls go, in
  this order, to \<open>p/site_homepage\<close> once and then, for each site, to
  \<open>p/site/name/scenInfo\<close> followed by \<open>p/site/name/schedule\<close>.  For the prefix
  \<^verbatim>\<open>anker\<close> and the one site \<^verbatim>\<open>Home\<close> these are \<^verbatim>\<open>anker/site_homepage\<close>,
  \<^verbatim>\<open>anker/site/Home/scenInfo\<close>, \<^verbatim>\<open>anker/site/Home/schedule\<close>.
\<close>

theorem publish_order:
  assumes "fst (fetchAndPublish cfg env s) = Inr ()"
    and "Log ''Published.'' \<in> set (events_of (fetchAndPublish cfg env) s)"
  shows "\<exists>r. siteHomepage_answer env = Inr r \<and>
           published_topics (events_of (fetchAndPublish cfg env) s) =
             cycle_topics (mqttTopic cfg) (site_list_or_empty r)"
proof -
  let ?s0 = "s\<lparr>trace := trace s @ [Log ''Fetching data'']\<rparr>"
  obtain res s1 where ob: "obtainLogin env ?s0 = (res, s1)"
    by (cases "obtainLogin env ?s0")
  from emits_obtainLogin [of env] ob obtain es1 where
    es1: "trace s1 = trace ?s0 @ es1" "list_all credential_event es1"
    unfolding emits_def by (metis snd_conv)
  note quiet = credential_events_publish_nothing [OF es1(2)]
  show ?thesis
  proof (cases res)
    case (Inl e)
    with ob assms(1) show ?thesis by (simp add: fetchAndPublish_stages)
  next
    case (Inr loginData)
    show ?thesis
    proof (cases loginData)
      case None
      with ob Inr es1(1)
      have "trace (snd (fetchAndPublish cfg env s)) =
          trace s @ (Log ''Fetching data'' # es1 @ [LogError ''Not logged in''])"
        by (simp add: fetchAndPublish_stages)
      then have "events_of (fetchAndPublish cfg env) s =
          Log ''Fetching data'' # es1 @ [LogError ''Not logged in'']"
        by (rule events_of_eq)
      with assms(2) quiet show ?thesis by simp
    next
      case (Some c)
      with ob Inr have eq: "fetchAndPublish cfg env s = publishAll cfg env c s1"
        by (simp add: fetchAndPublish_stages)
      with assms(1) have "publishAll cfg env c s1 = (Inr (), snd (publishAll cfg env c s1))"
        by (metis prod.collapse)
      from publishAll_success [OF this] obtain r es where
        r: "siteHomepage_answer env = Inr r" and
        es: "trace (snd (publishAll cfg env c s1)) = trace s1 @ es"
          "published_topics es = cycle_topics (mqttTopic cfg) (site_list_or_empty r)"
        by blast
      from eq es(1) es1(1)
      have "trace (snd (fetchAndPublish cfg env s)) = trace s @ (Log ''Fetching data'' # es1 @ es)"
        by simp
      then have "events_of (fetchAndPublish cfg env) s = Log ''Fetching data'' # es1 @ es"
        by (rule events_of_eq)
      with es(2) quiet have "published_topics (events_of (fetchAndPublish cfg env) s) =
          cycle_topics (mqttTopic cfg) (site_list_or_empty r)"
        by (simp add: published_topics_append)
      with r show ?thesis by blast
    qed
  qed
qed

theorem publish_order_witness:
  "published_topics (events_of (fetchAndPublish ex_cfg ex_env) ex_empty) =
     [''anker/site_homepage'', ''anker/site/Home/scenInfo'', ''anker/site/Home/schedule'']"
proof -
  have 1: "fst (fetchAndPublish ex_cfg ex_env ex_empty) = Inr ()"
    by (simp add: ex_cycle_trace)
  have 2: "Log ''Published.'' \<in> set (events_of (fetchAndPublish ex_cfg ex_env) ex_empty)"
    unfolding events_of_def ex_cycle_trace by (simp add: ex_empty_def)
  from publish_order [OF 1 2] obtain r where
    "siteHomepage_answer ex_env = Inr r" and
    "published_topics (events_of (fetchAndPublish ex_cfg ex_env) ex_empty) =
       cycle_topics (mqttTopic ex_cfg) (site_list_or_empty r)"
    by blast
  then show ?thesis
    by (auto simp: ex_defs cycle_topics_def site_topics_def site_list_or_empty_def)
qed

section \<open>The credential-usability predicate\<close>

text \<open>
  C6.  The predicate is a function of the credential and the given time only.  For a
  credential whose expiry is an instant \<open>e\<close> (the date built from
  \<^verbatim>\<open>token_expires_at * 1000\<close>) and a current time \<open>n\<close>, it is true when \<open>e\<close> is
  strictly after \<open>n\<close> and false when \<open>e \<le> n\<close>.
\<close>

theorem isLoginValid_iff_expiry_after_now:
  assumes "new_Date (token_expires_at loginData * 1000) = Date e"
  shows "(n < e \<longrightarrow> isLoginValid loginData (Date n)) \<and>
         (e \<le> n \<longrightarrow> \<not> isLoginValid loginData (Date n))"
  using assms by (simp add: isLoginValid_def)

theorem isLoginValid_iff_expiry_after_now_witness:
  "new_Date (token_expires_at ex_cred * 1000) = Date 1700003600000 \<and>
   isLoginValid ex_cred (Date 1700000000000) \<and>
   \<not> isLoginValid ex_cred (Date 1700003600000)"
proof -
  have h: "new_Date (token_expires_at ex_cred * 1000) = Date 1700003600000"
    by (simp add: new_Date_def ex_cred_def)
  from isLoginValid_iff_expiry_after_now [OF h, of 1700000000000]
  have a: "isLoginValid ex_cred (Date 1700000000000)" by simp
  from isLoginValid_iff_expiry_after_now [OF h, of 1700003600000]
  have b: "\<not> isLoginValid ex_cred (Date 1700003600000)" by simp
  from h a b show ?thesis by simp
qed

section \<open>The scheduler contains the failures of a cycle\<close>

text \<open>
  C7.  Whatever the cycles do, after any number \<open>n\<close> of turns the loop is still running
  and has slept \<open>n\<close> times: an exception raised inside a cycle is caught, logged with
  \<^verbatim>\<open>logger.warn\<close>, and the loop goes on to its sleep and to the next turn.  The
  process stays alive when the configuration was read, and exits with a non-zero status
  when reading the configuration fails at startup.
\<close>

theorem scheduler_contains_cycle_failures:
  "fst (run_loop cfg envs i n s) = None \<and>
   length (sleeps (events_of (run_loop cfg envs i n) s)) = n \<and>
   (\<forall>k e. k < n \<and>
      fst (fetchAndPublish cfg (cycle_env (envs (i + k))) (snd (run_loop cfg envs i k s))) = Inl e
      \<longrightarrow> LogWarn ''Failed fetching or publishing printer data'' e
            \<in> set (events_of (run_loop cfg envs i n) s)) \<and>
   fst (main (Inr cfg) cfg_json envs n s) = Running \<and>
   fst (main (Inl e0) cfg_json envs n s) = Exited 1"
proof (intro conjI allI impI)
  show "fst (run_loop cfg envs i n s) = None"
    by (rule run_loop_running)
  from run_loop_trace [of cfg envs i n s] obtain es where
    "trace (snd (run_loop cfg envs i n s)) = trace s @ es" "length (sleeps es) = n"
    by blast
  then show "length (sleeps (events_of (run_loop cfg envs i n) s)) = n"
    by (simp add: events_of_def)
  show "fst (main (Inl e0) cfg_json envs n s) = Exited 1"
    by (simp add: main_def)
  have "fst (run cfg cfg_json envs n s) = None"
    by (simp add: run_def run_loop_running)
  then show "fst (main (Inr cfg) cfg_json envs n s) = Running"
    by (cases "run cfg cfg_json envs n s") (simp add: main_def)
next
  fix k e
  assume "k < n \<and>
    fst (fetchAndPublish cfg (cycle_env (envs (i + k))) (snd (run_loop cfg envs i k s))) = Inl e"
  then show "LogWarn ''Failed fetching or publishing printer data'' e
      \<in> set (events_of (run_loop cfg envs i n) s)"
    by (blast intro: run_loop_warns)
qed

theorem scheduler_contains_cycle_failures_witness:
  "fst (run_loop ex_cfg (\<lambda>_. ex_turn 5000 ex_env_rejected) 0 2 ex_cached) = None \<and>
   length (sleeps (events_of (run_loop ex_cfg (\<lambda>_. ex_turn 5000 ex_env_rejected) 0 2) ex_cached)) = 2 \<and>
   LogWarn ''Failed fetching or publishing printer data'' (Error ''rejected'')
     \<in> set (events_of (run_loop ex_cfg (\<lambda>_. ex_turn 5000 ex_env_rejected) 0 2) ex_cached) \<and>
   fst (main (Inr ex_cfg) ''{}'' (\<lambda>_. ex_turn 5000 ex_env_rejected) 2 ex_cached) = Running"
proof -
  note inst = scheduler_contains_cycle_failures
    [of ex_cfg "\<lambda>_. ex_turn 5000 ex_env_rejected" 0 2 ex_cached "''{}''"]
  have "fetchAndPublish ex_cfg ex_env_rejected ex_cached =
     (Inl (Error ''rejected''),
      \<lparr>trace = [Log ''Fetching data'', Retrieve, Log ''Using cached auth data'', WithLogin ex_cred],
       loginStore = Some ex_cred\<rparr>)"
    by (simp add: cycle_defs ex_defs)
  then have fails: "(0::nat) < 2 \<and>
    fst (fetchAndPublish ex_cfg (cycle_env (ex_turn 5000 ex_env_rejected))
      (snd (run_loop ex_cfg (\<lambda>_. ex_turn 5000 ex_env_rejected) 0 0 ex_cached))) =
      Inl (Error ''rejected'')"
    by (simp add: ex_turn_def)
  from inst fails
  have "LogWarn ''Failed fetching or publishing printer data'' (Error ''rejected'')
     \<in> set (events_of (run_loop ex_cfg (\<lambda>_. ex_turn 5000 ex_env_rejected) 0 2) ex_cached)"
    by (metis add_0)
  with inst show ?thesis by blast
qed

section \<open>Retrieving the site overview\<close>

text \<open>
  C8, as the code has it.  Only \<^verbatim>\<open>getSitehomepage\<close> of the reference client retries:
  once its session stands it calls the overview once; if the call resolves to no result
  (\<^verbatim>\<open>undefined\<close>) it waits 1000 ms and calls exactly once more, and only if this second
  call resolves to no result either does it fail with the error
  \<^verbatim>\<open>Unable to retrieve Sitehomepage\<close>; an exception of either call is passed on.  The
  polling cycle does not go through that function: in every cycle the overview is called
  at most once, exactly once when the cycle has a credential and the session is
  established, and the cycle never waits for a retry, whatever the call answers.  The
  sample run shows the claim as stated to fail for the cycle: the overview answers without
  data, and the cycle publishes that and completes after the one call.
\<close>

theorem overview_retry_only_in_reference_client:
  "(e1600_init eenv st = (Inr (), sa) \<longrightarrow>
      (e_siteHomepage_answer eenv 0 = Inr (Some r) \<longrightarrow>
         getSitehomepage eenv st = (Inr (data r), sa\<lparr>trace := trace sa @ [SiteHomepage]\<rparr>)) \<and>
      (e_siteHomepage_answer eenv 0 = Inr None \<and> e_siteHomepage_answer eenv 1 = Inr (Some r) \<longrightarrow>
         getSitehomepage eenv st =
           (Inr (data r), sa\<lparr>trace := trace sa @ [SiteHomepage, SetTimeout 1000, SiteHomepage]\<rparr>)) \<and>
      (e_siteHomepage_answer eenv 0 = Inr None \<and> e_siteHomepage_answer eenv 1 = Inr None \<longrightarrow>
         getSitehomepage eenv st =
           (Inl (Error ''Unable to retrieve Sitehomepage''),
            sa\<lparr>trace := trace sa @ [SiteHomepage, SetTimeout 1000, SiteHomepage]\<rparr>)) \<and>
      (e_siteHomepage_answer eenv 0 = Inl e \<longrightarrow>
         getSitehomepage eenv st = (Inl e, sa\<lparr>trace := trace sa @ [SiteHomepage]\<rparr>)) \<and>
      (e_siteHomepage_answer eenv 0 = Inr None \<and> e_siteHomepage_answer eenv 1 = Inl e \<longrightarrow>
         getSitehomepage eenv st =
           (Inl e, sa\<lparr>trace := trace sa @ [SiteHomepage, SetTimeout 1000, SiteHomepage]\<rparr>))) \<and>
   count_list (events_of (fetchAndPublish cfg env) s) SiteHomepage \<le> 1 \<and>
   (\<forall>d. SetTimeout d \<notin> set (events_of (fetchAndPublish cfg env) s)) \<and>
   (obtainLogin env (s\<lparr>trace := trace s @ [Log ''Fetching data'']\<rparr>) = (Inr (Some c), sc) \<and>
    withLogin_answer env c = None \<longrightarrow>
      count_list (events_of (fetchAndPublish cfg env) s) SiteHomepage = 1)"
proof (intro conjI)
  show "e1600_init eenv st = (Inr (), sa) \<longrightarrow>
      (e_siteHomepage_answer eenv 0 = Inr (Some r) \<longrightarrow>
         getSitehomepage eenv st = (Inr (data r), sa\<lparr>trace := trace sa @ [SiteHomepage]\<rparr>)) \<and>
      (e_siteHomepage_answer eenv 0 = Inr None \<and> e_siteHomepage_answer eenv 1 = Inr (Some r) \<longrightarrow>
         getSitehomepage eenv st =
           (Inr (data r), sa\<lparr>trace := trace sa @ [SiteHomepage, SetTimeout 1000, SiteHomepage]\<rparr>)) \<and>
      (e_siteHomepage_answer eenv 0 = Inr None \<and> e_siteHomepage_answer eenv 1 = Inr None \<longrightarrow>
         getSitehomepage eenv st =
           (Inl (Error ''Unable to retrieve Sitehomepage''),
            sa\<lparr>trace := trace sa @ [SiteHomepage, SetTimeout 1000, SiteHomepage]\<rparr>)) \<and>
      (e_siteHomepage_answer eenv 0 = Inl e \<longrightarrow>
         getSitehomepage eenv st = (Inl e, sa\<lparr>trace := trace sa @ [SiteHomepage]\<rparr>)) \<and>
      (e_siteHomepage_answer eenv 0 = Inr None \<and> e_siteHomepage_answer eenv 1 = Inl e \<longrightarrow>
         getSitehomepage eenv st =
           (Inl e, sa\<lparr>trace := trace sa @ [SiteHomepage, SetTimeout 1000, SiteHomepage]\<rparr>))"
    using getSitehomepage_attempts [of eenv st sa r e] by blast
next
  show "count_list (events_of (fetchAndPublish cfg env) s) SiteHomepage \<le> 1"
    using cycle_overview_calls [of cfg env s] by blast
next
  show "\<forall>d. SetTimeout d \<notin> set (events_of (fetchAndPublish cfg env) s)"
    using cycle_overview_calls [of cfg env s] by blast
next
  show "obtainLogin env (s\<lparr>trace := trace s @ [Log ''Fetching data'']\<rparr>) = (Inr (Some c), sc) \<and>
    withLogin_answer env c = None \<longrightarrow>
      count_list (events_of (fetchAndPublish cfg env) s) SiteHomepage = 1"
    using cycle_overview_calls [of cfg env s] by blast
qed

theorem overview_retry_only_in_reference_client_counterexample:
  "fetchAndPublish ex_cfg ex_env_no_data ex_empty =
    (Inr (),
     \<lparr>trace = [Log ''Fetching data'', Retrieve, Login, Store ex_cred, WithLogin ex_cred,
        SiteHomepage, Publish ''anker/site_homepage'' Undefined, Log ''Published.''],
      loginStore = Some ex_cred\<rparr>)"
  by (simp add: cycle_defs ex_defs)

theorem overview_retry_only_in_reference_client_witness:
  "getSitehomepage ex_e1600_env ex_e1600 =
    (Inr (Some \<lparr>site_list = Some [ex_home], homepage_rest = ''{}''\<rparr>),
     \<lparr>trace = [Login, ConsoleLog ''LoginResponse'', WithLogin ex_cred,
        SiteHomepage, SetTimeout 1000, SiteHomepage],
      loginCredentials = Some ex_cred, apiSession = Some ex_cred\<rparr>) \<and>
   count_list (events_of (fetchAndPublish ex_cfg ex_env_no_data) ex_cached) SiteHomepage = 1 \<and>
   SetTimeout 1000 \<notin> set (events_of (fetchAndPublish ex_cfg ex_env_no_data) ex_cached)"
proof -
  let ?s0 = "ex_cached\<lparr>trace := trace ex_cached @ [Log ''Fetching data'']\<rparr>"
  let ?sc = "?s0\<lparr>trace := trace ?s0 @ [Retrieve, Log ''Using cached auth data'']\<rparr>"
  note inst = overview_retry_only_in_reference_client
    [where eenv = ex_e1600_env and st = ex_e1600 and r = "ex_overview [ex_home]"
      and cfg = ex_cfg and env = ex_env_no_data and s = ex_cached and c = ex_cred and sc = ?sc]
  have answers: "e_siteHomepage_answer ex_e1600_env 0 = Inr None \<and>
      e_siteHomepage_answer ex_e1600_env 1 = Inr (Some (ex_overview [ex_home]))"
    by (simp add: ex_e1600_env_def)
  from inst ex_e1600_init answers
  have "getSitehomepage ex_e1600_env ex_e1600 =
    (Inr (data (ex_overview [ex_home])),
     \<lparr>trace = [Login, ConsoleLog ''LoginResponse'', WithLogin ex_cred],
       loginCredentials = Some ex_cred, apiSession = Some ex_cred\<rparr>
     \<lparr>trace := trace \<lparr>trace = [Login, ConsoleLog ''LoginResponse'', WithLogin ex_cred],
       loginCredentials = Some ex_cred, apiSession = Some ex_cred\<rparr> @
         [SiteHomepage, SetTimeout 1000, SiteHomepage]\<rparr>)"
    by blast
  then have 1: "getSitehomepage ex_e1600_env ex_e1600 =
    (Inr (Some \<lparr>site_list = Some [ex_home], homepage_rest = ''{}''\<rparr>),
     \<lparr>trace = [Login, ConsoleLog ''LoginResponse'', WithLogin ex_cred,
        SiteHomepage, SetTimeout 1000, SiteHomepage],
      loginCredentials = Some ex_cred, apiSession = Some ex_cred\<rparr>)"
    by (simp add: ex_overview_def)
  have "loginStore ?s0 = Some ex_cred" and "isLoginValid ex_cred (Date (clock ex_env_no_data))"
    by (simp_all add: ex_defs isLoginValid_def new_Date_def)
  then have ob: "obtainLogin ex_env_no_data ?s0 = (Inr (Some ex_cred), ?sc)"
    by (rule obtainLogin_cached)
  have wl: "withLogin_answer ex_env_no_data ex_cred = None"
    by (simp add: ex_defs)
  from inst ob wl
  have 2: "count_list (events_of (fetchAndPublish ex_cfg ex_env_no_data) ex_cached) SiteHomepage = 1"
    by blast
  from inst
  have 3: "SetTimeout 1000 \<notin> set (events_of (fetchAndPublish ex_cfg ex_env_no_data) ex_cached)"
    by blast
  from 1 2 3 show ?thesis by simp
qed

section \<open>The five further retrievals per site\<close>

text \<open>
  C9, as the code has it.  A cycle that returns normally and logs \<^verbatim>\<open>Published.\<close> has
  run, after the overview and its publish, for each site of the list in order: the scenario
  info with its publish, the schedule with its publish, and then five more
  \<^verbatim>\<open>getSiteDeviceParam\<close> calls for that site, with the parameter types 3, 2, 1, 6
  and 6, and no publish for them.  What these five calls return has no influence: with
  other return values in their place the cycle gives the same result and the same trace.
  But each of them is awaited with no handler: when one rejects, the turn of the site ends
  at that call, the exception leaves the cycle, and the sites later in the list are not
  visited, so that their topics are not published.  The sample runs show the claim as
  stated to fail: the two runs differ only in the answer to one such call, and the
  published topics differ.
\<close>

theorem diagnostic_retrievals_awaited_not_published:
  "(fst (fetchAndPublish cfg env s) = Inr () \<and>
    Log ''Published.'' \<in> set (events_of (fetchAndPublish cfg env) s) \<longrightarrow>
      (\<exists>r c pre. siteHomepage_answer env = Inr r \<and> list_all credential_event pre \<and>
         events_of (fetchAndPublish cfg env) s =
           Log ''Fetching data'' # pre @
           [WithLogin c, SiteHomepage,
            Publish (mqttTopic cfg @ ''/site_homepage'') (homepage_payload (data r))] @
           all_site_events cfg env 0 (site_list_or_empty r) @ [Log ''Published.''])) \<and>
   fetchAndPublish cfg (replace_diagnostics other env) t = fetchAndPublish cfg env t \<and>
   (scenInfo_answer env i (site_id site) = Inr scen \<and>
    publish_answer env (2 * i + 1) (mqttTopic cfg @ ''/site/'' @ site_name site @ ''/scenInfo'')
      (json_payload (data scen)) = None \<and>
    getSiteDeviceParam_answer env i 0 (site_id site) ParamType_LoadConfiguration = Inr dp \<and>
    data dp = Some d \<and>
    publish_answer env (2 * i + 2) (mqttTopic cfg @ ''/site/'' @ site_name site @ ''/schedule'')
      (json_payload (param_data d)) = None \<and>
    1 \<le> j \<and> j \<le> 5 \<and>
    (\<forall>k. 1 \<le> k \<and> k < j \<longrightarrow>
       (\<exists>x. getSiteDeviceParam_answer env i k (site_id site) (diagnostic_types ! (k - 1)) = Inr x)) \<and>
    getSiteDeviceParam_answer env i j (site_id site) (diagnostic_types ! (j - 1)) = Inl e \<longrightarrow>
      site_body cfg env i site u =
        (Inl e, u\<lparr>trace := trace u @ take (4 + j) (completed_site_events cfg env i site)\<rparr>)) \<and>
   (obtainLogin env (s\<lparr>trace := trace s @ [Log ''Fetching data'']\<rparr>) = (Inr (Some c'), sc) \<and>
    withLogin_answer env c' = None \<and> siteHomepage_answer env = Inr r' \<and>
    publish_answer env 0 (mqttTopic cfg @ ''/site_homepage'') (homepage_payload (data r')) = None \<and>
    site_list_or_empty r' = before @ site # after \<and>
    sites_loop cfg env 0 before
      (sc\<lparr>trace := trace sc @ [WithLogin c', SiteHomepage,
          Publish (mqttTopic cfg @ ''/site_homepage'') (homepage_payload (data r'))]\<rparr>) = (Inr (), sa) \<and>
    site_body cfg env (length before) site sa = (Inl e, sb) \<longrightarrow>
      fetchAndPublish cfg env s = (Inl e, sb))"
proof (intro conjI impI)
  assume "fst (fetchAndPublish cfg env s) = Inr () \<and>
    Log ''Published.'' \<in> set (events_of (fetchAndPublish cfg env) s)"
  then show "\<exists>r c pre. siteHomepage_answer env = Inr r \<and> list_all credential_event pre \<and>
         events_of (fetchAndPublish cfg env) s =
           Log ''Fetching data'' # pre @
           [WithLogin c, SiteHomepage,
            Publish (mqttTopic cfg @ ''/site_homepage'') (homepage_payload (data r))] @
           all_site_events cfg env 0 (site_list_or_empty r) @ [Log ''Published.'']"
    by (blast intro: cycle_completed)
next
  show "fetchAndPublish cfg (replace_diagnostics other env) t = fetchAndPublish cfg env t"
    unfolding fetchAndPublish_def
    by (simp add: obtainLogin_replace_diagnostics publishAll_replace_diagnostics)
next
  assume "scenInfo_answer env i (site_id site) = Inr scen \<and>
    publish_answer env (2 * i + 1) (mqttTopic cfg @ ''/site/'' @ site_name site @ ''/scenInfo'')
      (json_payload (data scen)) = None \<and>
    getSiteDeviceParam_answer env i 0 (site_id site) ParamType_LoadConfiguration = Inr dp \<and>
    data dp = Some d \<and>
    publish_answer env (2 * i + 2) (mqttTopic cfg @ ''/site/'' @ site_name site @ ''/schedule'')
      (json_payload (param_data d)) = None \<and>
    1 \<le> j \<and> j \<le> 5 \<and>
    (\<forall>k. 1 \<le> k \<and> k < j \<longrightarrow>
       (\<exists>x. getSiteDeviceParam_answer env i k (site_id site) (diagnostic_types ! (k - 1)) = Inr x)) \<and>
    getSiteDeviceParam_answer env i j (site_id site) (diagnostic_types ! (j - 1)) = Inl e"
  then show "site_body cfg env i site u =
        (Inl e, u\<lparr>trace := trace u @ take (4 + j) (completed_site_events cfg env i site)\<rparr>)"
    by (intro diagnostic_call_rejects) blast+
next
  assume "obtainLogin env (s\<lparr>trace := trace s @ [Log ''Fetching data'']\<rparr>) = (Inr (Some c'), sc) \<and>
    withLogin_answer env c' = None \<and> siteHomepage_answer env = Inr r' \<and>
    publish_answer env 0 (mqttTopic cfg @ ''/site_homepage'') (homepage_payload (data r')) = None \<and>
    site_list_or_empty r' = before @ site # after \<and>
    sites_loop cfg env 0 before
      (sc\<lparr>trace := trace sc @ [WithLogin c', SiteHomepage,
          Publish (mqttTopic cfg @ ''/site_homepage'') (homepage_payload (data r'))]\<rparr>) = (Inr (), sa) \<and>
    site_body cfg env (length before) site sa = (Inl e, sb)"
  then show "fetchAndPublish cfg env s = (Inl e, sb)"
    by (intro site_failure_leaves_cycle [where c = c' and r = r' and before = before
          and after = after and site = site and sa = sa and sc = sc]) blast+
qed

theorem diagnostic_retrievals_awaited_not_published_counterexample:
  "published_topics (events_of (fetchAndPublish ex_cfg ex_env_two_sites) ex_cached) =
     [''anker/site_homepage'', ''anker/site/Home/scenInfo'', ''anker/site/Home/schedule'',
      ''anker/site/Cabin/scenInfo'', ''anker/site/Cabin/schedule''] \<and>
   published_topics (events_of (fetchAndPublish ex_cfg ex_env_diagnostic_fails) ex_cached) =
     [''anker/site_homepage'', ''anker/site/Home/scenInfo'', ''anker/site/Home/schedule''] \<and>
   fst (fetchAndPublish ex_cfg ex_env_diagnostic_fails ex_cached) = Inl (Error ''timeout'')"
  unfolding events_of_def ex_two_sites_run ex_diagnostic_fails_run
  by (simp add: ex_cached_def)

theorem diagnostic_retrievals_awaited_not_published_witness:
  "(\<exists>c pre. list_all credential_event pre \<and>
      events_of (fetchAndPublish ex_cfg ex_env_two_sites) ex_cached =
        Log ''Fetching data'' # pre @
        [WithLogin c, SiteHomepage,
         Publish ''anker/site_homepage''
           (Homepage \<lparr>site_list = Some [ex_home, ex_cabin], homepage_rest = ''{}''\<rparr>)] @
        [ScenInfo ''s1'', Publish ''anker/site/Home/scenInfo'' (Json ''scen''),
         GetSiteDeviceParam ''s1'' ''4'', Publish ''anker/site/Home/schedule'' (Json ''ranges''),
         GetSiteDeviceParam ''s1'' ''3'', GetSiteDeviceParam ''s1'' ''2'',
         GetSiteDeviceParam ''s1'' ''1'', GetSiteDeviceParam ''s1'' ''6'',
         GetSiteDeviceParam ''s1'' ''6'',
         ScenInfo ''s2'', Publish ''anker/site/Cabin/scenInfo'' (Json ''scen''),
         GetSiteDeviceParam ''s2'' ''4'', Publish ''anker/site/Cabin/schedule'' (Json ''ranges''),
         GetSiteDeviceParam ''s2'' ''3'', GetSiteDeviceParam ''s2'' ''2'',
         GetSiteDeviceParam ''s2'' ''1'', GetSiteDeviceParam ''s2'' ''6'',
         GetSiteDeviceParam ''s2'' ''6''] @ [Log ''Published.'']) \<and>
   fetchAndPublish ex_cfg
     (replace_diagnostics (\<lambda>i j sid pt. \<lparr>code = 0, msg = ''other'', data = None\<rparr>) ex_env_two_sites)
     ex_cached = fetchAndPublish ex_cfg ex_env_two_sites ex_cached \<and>
   site_body ex_cfg ex_env_diagnostic_fails 0 ex_home ex_empty =
     (Inl (Error ''timeout''),
      \<lparr>trace =
         [ScenInfo ''s1'', Publish ''anker/site/Home/scenInfo'' (Json ''scen''),
          GetSiteDeviceParam ''s1'' ''4'', Publish ''anker/site/Home/schedule'' (Json ''ranges''),
          GetSiteDeviceParam ''s1'' ''3''],
       loginStore = None\<rparr>) \<and>
   fetchAndPublish ex_cfg ex_env_diagnostic_fails ex_cached =
     (Inl (Error ''timeout''),
      \<lparr>trace =
         [Log ''Fetching data'', Retrieve, Log ''Using cached auth data'', WithLogin ex_cred,
          SiteHomepage,
          Publish ''anker/site_homepage''
            (Homepage \<lparr>site_list = Some [ex_home, ex_cabin], homepage_rest = ''{}''\<rparr>),
          ScenInfo ''s1'', Publish ''anker/site/Home/scenInfo'' (Json ''scen''),
          GetSiteDeviceParam ''s1'' ''4'', Publish ''anker/site/Home/schedule'' (Json ''ranges''),
          GetSiteDeviceParam ''s1'' ''3''],
       loginStore = Some ex_cred\<rparr>)"
proof -
  let ?e = "Error ''timeout''"
  let ?other = "\<lambda>(i::nat) (j::nat) (sid::string) (pt::string).
      \<lparr>code = 0, msg = ''other'', data = None :: SiteDeviceParamResponse option\<rparr>"
  let ?scen = "\<lparr>code = 0, msg = ''success!'', data = Some ''scen''\<rparr>"
  let ?dp = "\<lparr>code = 0, msg = ''success!'', data = Some \<lparr>param_data = Some ''ranges''\<rparr>\<rparr>"
  let ?r = "ex_overview [ex_home, ex_cabin]"
  let ?s0 = "ex_cached\<lparr>trace := trace ex_cached @ [Log ''Fetching data'']\<rparr>"
  let ?sc = "?s0\<lparr>trace := trace ?s0 @ [Retrieve, Log ''Using cached auth data'']\<rparr>"
  let ?sa = "?sc\<lparr>trace := trace ?sc @ [WithLogin ex_cred, SiteHomepage,
      Publish (mqttTopic ex_cfg @ ''/site_homepage'') (homepage_payload (data ?r))]\<rparr>"

  have completed: "fst (fetchAndPublish ex_cfg ex_env_two_sites ex_cached) = Inr () \<and>
      Log ''Published.'' \<in> set (events_of (fetchAndPublish ex_cfg ex_env_two_sites) ex_cached)"
    unfolding events_of_def ex_two_sites_run by (simp add: ex_cached_def)
  from diagnostic_retrievals_awaited_not_published
    [where cfg = ex_cfg and env = ex_env_two_sites and s = ex_cached, THEN conjunct1] completed
  obtain r c pre where
    r: "siteHomepage_answer ex_env_two_sites = Inr r" and
    pre: "list_all credential_event pre" and
    ev: "events_of (fetchAndPublish ex_cfg ex_env_two_sites) ex_cached =
           Log ''Fetching data'' # pre @
           [WithLogin c, SiteHomepage,
            Publish (mqttTopic ex_cfg @ ''/site_homepage'') (homepage_payload (data r))] @
           all_site_events ex_cfg ex_env_two_sites 0 (site_list_or_empty r) @ [Log ''Published.'']"
    by blast
  from r have "r = ?r" by (simp add: ex_defs)
  with ev have "events_of (fetchAndPublish ex_cfg ex_env_two_sites) ex_cached =
        Log ''Fetching data'' # pre @
        [WithLogin c, SiteHomepage,
         Publish ''anker/site_homepage''
           (Homepage \<lparr>site_list = Some [ex_home, ex_cabin], homepage_rest = ''{}''\<rparr>)] @
        [ScenInfo ''s1'', Publish ''anker/site/Home/scenInfo'' (Json ''scen''),
         GetSiteDeviceParam ''s1'' ''4'', Publish ''anker/site/Home/schedule'' (Json ''ranges''),
         GetSiteDeviceParam ''s1'' ''3'', GetSiteDeviceParam ''s1'' ''2'',
         GetSiteDeviceParam ''s1'' ''1'', GetSiteDeviceParam ''s1'' ''6'',
         GetSiteDeviceParam ''s1'' ''6'',
         ScenInfo ''s2'', Publish ''anker/site/Cabin/scenInfo'' (Json ''scen''),
         GetSiteDeviceParam ''s2'' ''4'', Publish ''anker/site/Cabin/schedule'' (Json ''ranges''),
         GetSiteDeviceParam ''s2'' ''3'', GetSiteDeviceParam ''s2'' ''2'',
         GetSiteDeviceParam ''s2'' ''1'', GetSiteDeviceParam ''s2'' ''6'',
         GetSiteDeviceParam ''s2'' ''6''] @ [Log ''Published.'']"
    by (simp add: site_list_or_empty_def completed_site_events_def site_events_def
        ParamType_LoadConfiguration_def ex_defs)
  with pre have 1: "\<exists>c pre. list_all credential_event pre \<and>
      events_of (fetchAndPublish ex_cfg ex_env_two_sites) ex_cached =
        Log ''Fetching data'' # pre @
        [WithLogin c, SiteHomepage,
         Publish ''anker/site_homepage''
           (Homepage \<lparr>site_list = Some [ex_home, ex_cabin], homepage_rest = ''{}''\<rparr>)] @
        [ScenInfo ''s1'', Publish ''anker/site/Home/scenInfo'' (Json ''scen''),
         GetSiteDeviceParam ''s1'' ''4'', Publish ''anker/site/Home/schedule'' (Json ''ranges''),
         GetSiteDeviceParam ''s1'' ''3'', GetSiteDeviceParam ''s1'' ''2'',
         GetSiteDeviceParam ''s1'' ''1'', GetSiteDeviceParam ''s1'' ''6'',
         GetSiteDeviceParam ''s1'' ''6'',
         ScenInfo ''s2'', Publish ''anker/site/Cabin/scenInfo'' (Json ''scen''),
         GetSiteDeviceParam ''s2'' ''4'', Publish ''anker/site/Cabin/schedule'' (Json ''ranges''),
         GetSiteDeviceParam ''s2'' ''3'', GetSiteDeviceParam ''s2'' ''2'',
         GetSiteDeviceParam ''s2'' ''1'', GetSiteDeviceParam ''s2'' ''6'',
         GetSiteDeviceParam ''s2'' ''6''] @ [Log ''Published.'']"
    by blast

  from diagnostic_retrievals_awaited_not_published
    [where cfg = ex_cfg and env = ex_env_two_sites and other = ?other and t = ex_cached,
      THEN conjunct2, THEN conjunct1]
  have 2: "fetchAndPublish ex_cfg (replace_diagnostics ?other ex_env_two_sites) ex_cached =
      fetchAndPublish ex_cfg ex_env_two_sites ex_cached" .

  have first: "scenInfo_answer ex_env_diagnostic_fails 0 (site_id ex_home) = Inr ?scen \<and>
    publish_answer ex_env_diagnostic_fails (2 * 0 + 1)
      (mqttTopic ex_cfg @ ''/site/'' @ site_name ex_home @ ''/scenInfo'')
      (json_payload (data ?scen)) = None \<and>
    getSiteDeviceParam_answer ex_env_diagnostic_fails 0 0 (site_id ex_home)
      ParamType_LoadConfiguration = Inr ?dp \<and>
    data ?dp = Some \<lparr>param_data = Some ''ranges''\<rparr> \<and>
    publish_answer ex_env_diagnostic_fails (2 * 0 + 2)
      (mqttTopic ex_cfg @ ''/site/'' @ site_name ex_home @ ''/schedule'')
      (json_payload (param_data \<lparr>param_data = Some ''ranges''\<rparr>)) = None \<and>
    (1::nat) \<le> 1 \<and> (1::nat) \<le> 5 \<and>
    (\<forall>k. 1 \<le> k \<and> k < (1::nat) \<longrightarrow>
       (\<exists>x. getSiteDeviceParam_answer ex_env_diagnostic_fails 0 k (site_id ex_home)
          (diagnostic_types ! (k - 1)) = Inr x)) \<and>
    getSiteDeviceParam_answer ex_env_diagnostic_fails 0 1 (site_id ex_home)
      (diagnostic_types ! (1 - 1)) = Inl ?e"
    by (simp add: ex_defs)
  note body = diagnostic_retrievals_awaited_not_published
    [where cfg = ex_cfg and env = ex_env_diagnostic_fails and i = 0 and site = ex_home
      and scen = ?scen and dp = ?dp and d = "\<lparr>param_data = Some ''ranges''\<rparr>" and j = 1
      and e = ?e, THEN conjunct2, THEN conjunct2, THEN conjunct1, rule_format, OF first]
  from body [of ex_empty]
  have 3: "site_body ex_cfg ex_env_diagnostic_fails 0 ex_home ex_empty =
     (Inl ?e,
      \<lparr>trace =
         [ScenInfo ''s1'', Publish ''anker/site/Home/scenInfo'' (Json ''scen''),
          GetSiteDeviceParam ''s1'' ''4'', Publish ''anker/site/Home/schedule'' (Json ''ranges''),
          GetSiteDeviceParam ''s1'' ''3''],
       loginStore = None\<rparr>)"
    by (simp add: completed_site_events_def site_events_def ParamType_LoadConfiguration_def
        ex_defs)

  have "loginStore ?s0 = Some ex_cred"
    and "isLoginValid ex_cred (Date (clock ex_env_diagnostic_fails))"
    by (simp_all add: ex_defs isLoginValid_def new_Date_def)
  then have ob: "obtainLogin ex_env_diagnostic_fails ?s0 = (Inr (Some ex_cred), ?sc)"
    by (rule obtainLogin_cached)
  have cyc: "obtainLogin ex_env_diagnostic_fails
      (ex_cached\<lparr>trace := trace ex_cached @ [Log ''Fetching data'']\<rparr>) = (Inr (Some ex_cred), ?sc) \<and>
    withLogin_answer ex_env_diagnostic_fails ex_cred = None \<and>
    siteHomepage_answer ex_env_diagnostic_fails = Inr ?r \<and>
    publish_answer ex_env_diagnostic_fails 0 (mqttTopic ex_cfg @ ''/site_homepage'')
      (homepage_payload (data ?r)) = None \<and>
    site_list_or_empty ?r = [] @ ex_home # [ex_cabin] \<and>
    sites_loop ex_cfg ex_env_diagnostic_fails 0 [] ?sa = (Inr (), ?sa) \<and>
    site_body ex_cfg ex_env_diagnostic_fails (length ([]::Site list)) ex_home ?sa =
      (Inl ?e, ?sa\<lparr>trace := trace ?sa @
         take (4 + 1) (completed_site_events ex_cfg ex_env_diagnostic_fails 0 ex_home)\<rparr>)"
    using ob body [of ?sa]
    by (simp add: ex_defs site_list_or_empty_def return_apply)
  from diagnostic_retrievals_awaited_not_published
    [where cfg = ex_cfg and env = ex_env_diagnostic_fails and s = ex_cached and c' = ex_cred
      and sc = ?sc and r' = ?r and before = "[]" and site = ex_home and after = "[ex_cabin]"
      and sa = ?sa and e = ?e
      and sb = "?sa\<lparr>trace := trace ?sa @
         take (4 + 1) (completed_site_events ex_cfg ex_env_diagnostic_fails 0 ex_home)\<rparr>",
      THEN conjunct2, THEN conjunct2, THEN conjunct2, rule_format, OF cyc]
  have 4: "fetchAndPublish ex_cfg ex_env_diagnostic_fails ex_cached =
     (Inl ?e,
      \<lparr>trace =
         [Log ''Fetching data'', Retrieve, Log ''Using cached auth data'', WithLogin ex_cred,
          SiteHomepage,
          Publish ''anker/site_homepage''
            (Homepage \<lparr>site_list = Some [ex_home, ex_cabin], homepage_rest = ''{}''\<rparr>),
          ScenInfo ''s1'', Publish ''anker/site/Home/scenInfo'' (Json ''scen''),
          GetSiteDeviceParam ''s1'' ''4'', Publish ''anker/site/Home/schedule'' (Json ''ranges''),
          GetSiteDeviceParam ''s1'' ''3''],
       loginStore = Some ex_cred\<rparr>)"
    by (simp add: completed_site_events_def site_events_def ParamType_LoadConfiguration_def
        ex_defs)
  from 1 2 3 4 show ?thesis by blast
qed

section \<open>An overview answer without data\<close>

text \<open>
  C10.  When the cycle has a credential, the session is established, and the overview call
  returns an answer that carries no \<^verbatim>\<open>data\<close>, the cycle does not abort: it publishes
  the undefined payload to the \<^verbatim>\<open>site_homepage\<close> topic, visits no site, publishes
  nothing else, logs \<^verbatim>\<open>Published.\<close> and returns normally.
\<close>

theorem overview_without_data:
  assumes "obtainLogin env (s\<lparr>trace := trace s @ [Log ''Fetching data'']\<rparr>) = (Inr (Some c), s1)"
    and "withLogin_answer env c = None"
    and "siteHomepage_answer env = Inr r" and "data r = None"
    and "publish_answer env 0 (mqttTopic cfg @ ''/site_homepage'') Undefined = None"
  shows "fetchAndPublish cfg env s =
    (Inr (), s1\<lparr>trace := trace s1 @
       [WithLogin c, SiteHomepage, Publish (mqttTopic cfg @ ''/site_homepage'') Undefined,
        Log ''Published.'']\<rparr>)"
  using assms
  by (simp add: fetchAndPublish_stages publishAll_def call_defs prog_laws site_list_or_empty_def)

theorem overview_without_data_witness:
  "fetchAndPublish ex_cfg ex_env_no_data ex_cached =
    (Inr (),
     \<lparr>trace = [Log ''Fetching data'', Retrieve, Log ''Using cached auth data'', WithLogin ex_cred,
        SiteHomepage, Publish ''anker/site_homepage'' Undefined, Log ''Published.''],
      loginStore = Some ex_cred\<rparr>)"
proof -
  let ?s0 = "ex_cached\<lparr>trace := trace ex_cached @ [Log ''Fetching data'']\<rparr>"
  have "loginStore ?s0 = Some ex_cred" and "isLoginValid ex_cred (Date (clock ex_env_no_data))"
    by (simp_all add: ex_defs isLoginValid_def new_Date_def)
  then have 1: "obtainLogin ex_env_no_data ?s0 =
      (Inr (Some ex_cred), ?s0\<lparr>trace := trace ?s0 @ [Retrieve, Log ''Using cached auth data'']\<rparr>)"
    by (rule obtainLogin_cached)
  have 2: "withLogin_answer ex_env_no_data ex_cred = None"
    and 3: "siteHomepage_answer ex_env_no_data = Inr \<lparr>code = 401, msg = ''failed'', data = None\<rparr>"
    and 4: "data \<lparr>code = 401, msg = ''failed'', data = None :: SiteHomepageResponse option\<rparr> = None"
    and 5: "publish_answer ex_env_no_data 0 (mqttTopic ex_cfg @ ''/site_homepage'') Undefined = None"
    by (simp_all add: ex_defs)
  from overview_without_data [OF 1 2 3 4 5] show ?thesis
    by (simp add: ex_defs)
qed

end
